theory Spec2Isabelle
  imports Complex_Main "HOL-Library.Word" "HOL-Library.Multiset"
begin

unbundle bit_operations_syntax

section \<open>JavaScript values used by the scoring code\<close>

text \<open>
  The cloud functions read match telemetry as untyped JSON. A numeric field of such a
  payload is modelled as \<open>int option\<close>: \<open>None\<close> is a missing, null or undefined
  field, \<open>Some n\<close> an integer. JavaScript numbers that hold points are modelled as exact
  rationals (\<open>0.02\<close> is \<open>2 / 100\<close>); the rounding of IEEE doubles is outside the model.
  Strings are byte strings restricted to what the code inspects (ASCII digits, ASCII
  white space, ASCII letters).
\<close>

text \<open>\<open>toInt = (v) => Number.parseInt(String(v ?? 0), 10) || 0\<close> on a numeric field.\<close>

definition toInt :: "int option \<Rightarrow> int" where
  "toInt v = (case v of None \<Rightarrow> 0 | Some n \<Rightarrow> n)"

text \<open>\<open>x ?? 0\<close> on an optional number.\<close>

definition nullish0 :: "int option \<Rightarrow> int" where
  "nullish0 v = (case v of None \<Rightarrow> 0 | Some n \<Rightarrow> n)"

definition isDigit :: "char \<Rightarrow> bool" where
  "isDigit c = (48 \<le> (of_char c :: nat) \<and> (of_char c :: nat) \<le> 57)"

definition isSpace :: "char \<Rightarrow> bool" where
  "isSpace c = ((of_char c :: nat) = 32 \<or> (9 \<le> (of_char c :: nat) \<and> (of_char c :: nat) \<le> 13))"

definition digitVal :: "char \<Rightarrow> int" where
  "digitVal c = int (of_char c) - 48"

definition digitChar :: "nat \<Rightarrow> char" where
  "digitChar d = char_of (48 + d)"

text \<open>\<open>String(n)\<close> for an integer \<open>n\<close>: its decimal digits, with a sign when negative.\<close>

function natToDec :: "nat \<Rightarrow> string" where
  "natToDec n = (if n < 10 then [digitChar n] else natToDec (n div 10) @ [digitChar (n mod 10)])"
  by pat_completeness auto
termination
  by (relation "measure id") auto

definition jsString :: "int \<Rightarrow> string" where
  "jsString n = (if n < 0 then CHR ''-'' # natToDec (nat (- n)) else natToDec (nat n))"

text \<open>
  \<open>toInt\<close> on a string: \<open>parseInt(s, 10) || 0\<close> skips leading white space, reads an
  optional sign and the longest prefix of decimal digits; no digits at all is \<open>NaN\<close>,
  which \<open>|| 0\<close> turns into 0.
\<close>

definition parseDigits :: "string \<Rightarrow> int" where
  "parseDigits s = foldl (\<lambda>acc c. acc * 10 + digitVal c) 0 (takeWhile isDigit s)"

definition toIntStr :: "string \<Rightarrow> int" where
  "toIntStr s =
     (case dropWhile isSpace s of
        [] \<Rightarrow> 0
      | c # cs \<Rightarrow>
          if c = CHR ''-'' then - parseDigits cs
          else if c = CHR ''+'' then parseDigits cs
          else parseDigits (c # cs))"

text \<open>The regular expression \<open>/^\d+$/\<close>.\<close>

definition allDigits :: "string \<Rightarrow> bool" where
  "allDigits s = (s \<noteq> [] \<and> list_all isDigit s)"

section \<open>Data model\<close>

text \<open>One row of \<open>match.players\<close> as the provider sends it and as the cache stores it.\<close>

record Player =
  account_id :: "int option"
  player_slot :: "int option"
  kills :: "int option"
  deaths :: "int option"
  assists :: "int option"
  last_hits :: "int option"
  denies :: "int option"
  obs_placed :: "int option"
  camps_stacked :: "int option"
  roshans_killed :: "int option"
  roshan_kills :: "int option"

text \<open>
  One entry of \<open>match.objectives\<close>. \<open>team\<close> is the field \<open>scoring.ts\<close> reads
  (2 is radiant, 3 is dire); \<open>o_player_slot\<close> the one \<open>index.ts\<close> reads.
\<close>

record Objective =
  otype :: string
  o_player_slot :: "int option"
  team :: "int option"

text \<open>
  \<open>MatchDoc\<close>, the cached match. Its numeric fields were written through \<open>toInt\<close>, so
  they are integers; \<open>complete\<close> absent reads as \<open>False\<close>. A \<open>players\<close> or
  \<open>objectives\<close> field that is not an array reads as the empty list, as the code's
  \<open>Array.isArray(x) ? x : []\<close> does.
\<close>

record MatchDoc =
  match_id :: int
  series_id :: int
  series_type :: int
  radiant_team_id :: int
  dire_team_id :: int
  radiant_win :: bool
  duration :: int
  tower_status_radiant :: int
  tower_status_dire :: int
  barracks_status_radiant :: int
  barracks_status_dire :: int
  objectives :: "Objective list"
  players :: "Player list"
  start_time :: int
  radiant_name :: string
  dire_name :: string
  tid :: string
  dateKey :: string
  complete :: bool

section \<open>Player scoring\<close>

subsection \<open>\<open>scoring.ts\<close>: \<open>scorePlayerMatch\<close>\<close>

record PlayerStats =
  p_kills :: int
  p_assists :: int
  p_deaths :: int
  p_last_hits :: int
  p_denies :: int
  p_obs_placed :: "int option"
  p_sen_placed :: "int option"
  p_camps_stacked :: "int option"
  p_win :: bool

definition scorePlayerMatch :: "PlayerStats \<Rightarrow> int \<Rightarrow> rat" where
  "scorePlayerMatch p durationSeconds =
     (let wards = nullish0 (p_obs_placed p) + nullish0 (p_sen_placed p);
          pts = 0;
          pts = pts + of_int (p_kills p) * 3;
          pts = pts + of_int (p_assists p) * 2;
          pts = pts + of_int (p_deaths p) * (- 1);
          pts = pts + of_int (p_last_hits p) * (2 / 100);
          pts = pts + of_int (p_denies p) * (2 / 100);
          pts = pts + of_int wards * (2 / 10);
          pts = pts + of_int (nullish0 (p_camps_stacked p)) * (5 / 10);
          pts = (if p_win p
                 then (let pts = pts + 15 in if durationSeconds < 25 * 60 then pts + 15 else pts)
                 else pts);
          pts = (if p_kills p + p_assists p > 20 then pts + 2 else pts)
      in pts)"

subsection \<open>\<open>index.ts\<close>: \<open>summarizePlayers\<close> and \<open>scorePlayerInMatch\<close>\<close>

text \<open>The \<open>SCORING\<close> constant of \<open>index.ts\<close>.\<close>

record PlayerRules =
  kill :: rat
  assist :: rat
  death :: rat
  lastHits :: rat
  deniesW :: rat
  wardsPlaced :: rat
  campsStacked :: rat
  winUnder25 :: rat
  kaOver20 :: rat
  winGame :: rat
  sweepP :: rat

record TeamRules =
  towers :: rat
  barracks :: rat
  roshans :: rat
  firstBlood :: rat
  teamWin :: rat
  sweepT :: rat

record Scoring =
  playersR :: PlayerRules
  teamR :: TeamRules
  captainMultiplier :: rat

definition SCORING :: Scoring where
  "SCORING =
     \<lparr>playersR = \<lparr>kill = 3, assist = 2, death = - 1, lastHits = 2 / 100, deniesW = 2 / 100,
                   wardsPlaced = 2 / 10, campsStacked = 5 / 10, winUnder25 = 15, kaOver20 = 2,
                   winGame = 15, sweepP = 15\<rparr>,
      teamR = \<lparr>towers = 1, barracks = 1, roshans = 3, firstBlood = 2, teamWin = 2, sweepT = 15\<rparr>,
      captainMultiplier = 15 / 10\<rparr>"

text \<open>The row \<open>summarizePlayers\<close> stores per account id.\<close>

record Row =
  r_id :: string
  r_kills :: int
  r_deaths :: int
  r_assists :: int
  r_last_hits :: int
  r_denies :: int
  r_obs_placed :: int
  r_camps_stacked :: int
  r_player_slot :: int
  r_isRadiant :: bool

text \<open>\<open>String(p?.account_id ?? "")\<close>.\<close>

definition accountKey :: "Player \<Rightarrow> string" where
  "accountKey p = (case account_id p of None \<Rightarrow> [] | Some n \<Rightarrow> jsString n)"

definition toRow :: "Player \<Rightarrow> Row" where
  "toRow p =
     \<lparr>r_id = accountKey p,
      r_kills = toInt (kills p), r_deaths = toInt (deaths p), r_assists = toInt (assists p),
      r_last_hits = toInt (last_hits p), r_denies = toInt (denies p),
      r_obs_placed = toInt (obs_placed p), r_camps_stacked = toInt (camps_stacked p),
      r_player_slot = toInt (player_slot p), r_isRadiant = (toInt (player_slot p) < 128)\<rparr>"

text \<open>
  The loop of \<open>summarizePlayers\<close> over the rows: a row with an empty id is skipped, a
  later row with the same id replaces the earlier one (\<open>Map.set\<close>).
\<close>

fun summarizeLoop :: "Player list \<Rightarrow> (string \<rightharpoonup> Row) \<Rightarrow> (string \<rightharpoonup> Row)" where
  "summarizeLoop [] mp = mp"
| "summarizeLoop (p # ps) mp =
     (if accountKey p = [] then summarizeLoop ps mp
      else summarizeLoop ps (mp(accountKey p \<mapsto> toRow p)))"

definition summarizePlayers :: "MatchDoc \<Rightarrow> (string \<rightharpoonup> Row)" where
  "summarizePlayers m = summarizeLoop (players m) Map.empty"

definition scorePlayerInMatch :: "string \<Rightarrow> MatchDoc \<Rightarrow> rat" where
  "scorePlayerInMatch steam32 m =
     (case summarizePlayers m steam32 of
        None \<Rightarrow> 0
      | Some row \<Rightarrow>
          (let isWin = ((r_isRadiant row \<and> radiant_win m) \<or> (\<not> r_isRadiant row \<and> \<not> radiant_win m));
               pts = 0;
               pts = pts + (of_int (r_kills row) * kill (playersR SCORING)
                          + of_int (r_assists row) * assist (playersR SCORING)
                          + of_int (r_deaths row) * death (playersR SCORING));
               pts = pts + (of_int (r_last_hits row) * lastHits (playersR SCORING)
                          + of_int (r_denies row) * deniesW (playersR SCORING));
               pts = pts + (of_int (r_obs_placed row) * wardsPlaced (playersR SCORING)
                          + of_int (r_camps_stacked row) * campsStacked (playersR SCORING));
               pts = (if isWin \<and> duration m < 25 * 60 then pts + winUnder25 (playersR SCORING) else pts);
               pts = (if r_kills row + r_assists row \<ge> 20 then pts + kaOver20 (playersR SCORING) else pts);
               pts = (if isWin then pts + winGame (playersR SCORING) else pts)
           in pts))"

section \<open>Team scoring\<close>

datatype Side = Radiant | Dire

record SidePair =
  radiant :: int
  dire :: int

subsection \<open>\<open>scoring.ts\<close>: \<open>scoreTeamMatch\<close> and its helpers\<close>

text \<open>
  \<open>popcount = (n) => { let c = 0, x = n >>> 0; while (x) { x &= x - 1; c++; } return c; }\<close>.
  \<open>n >>> 0\<close> is the unsigned 32-bit value of \<open>n\<close>; the loop clears the lowest set bit.
\<close>

lemma clear_lowest_bit_less: "x \<noteq> 0 \<Longrightarrow> unat ((x :: 32 word) AND (x - 1)) < unat x"
proof -
  assume nz: "x \<noteq> 0"
  have "x AND (x - 1) \<le> x - 1"
    by (rule word_and_le1)
  moreover have "x - 1 < x"
    using nz by (metis add_cancel_left_right antisym_conv3 diff_add_cancel word_less_1
        word_sub_less_iff zero_neq_one)
  ultimately have "x AND (x - 1) < x"
    by simp
  then show ?thesis
    by (simp add: word_less_nat_alt)
qed

function popLoop :: "32 word \<Rightarrow> nat \<Rightarrow> nat" where
  "popLoop x c = (if x \<noteq> 0 then popLoop (x AND (x - 1)) (c + 1) else c)"
  by pat_completeness auto
termination
  by (relation "measure (\<lambda>(x, c). unat x)") (auto simp: clear_lowest_bit_less)

definition popcount :: "int \<Rightarrow> nat" where
  "popcount n = popLoop (word_of_int n) 0"

definition towersDestroyedBy :: "Side \<Rightarrow> int \<Rightarrow> int \<Rightarrow> int" where
  "towersDestroyedBy side tr td = 11 - int (popcount (if side = Radiant then tr else td))"

definition raxDestroyedBy :: "Side \<Rightarrow> int \<Rightarrow> int \<Rightarrow> int" where
  "raxDestroyedBy side br bd = 6 - int (popcount (if side = Radiant then br else bd))"

definition roshansForSide :: "Objective list \<Rightarrow> Side \<Rightarrow> int" where
  "roshansForSide objs side =
     (let t = (if side = Radiant then 2 else 3)
      in int (length (filter (\<lambda>ob. otype ob = ''CHAT_MESSAGE_ROSHAN_KILL'' \<and> team ob = Some t) objs)))"

definition firstBloodForSide :: "Objective list \<Rightarrow> Side \<Rightarrow> bool" where
  "firstBloodForSide objs side =
     (let t = (if side = Radiant then 2 else 3)
      in list_ex (\<lambda>ob. otype ob = ''CHAT_MESSAGE_FIRSTBLOOD'' \<and> team ob = Some t) objs)"

record TeamMatchArgs =
  a_side :: Side
  a_tower_status_radiant :: int
  a_tower_status_dire :: int
  a_barracks_status_radiant :: int
  a_barracks_status_dire :: int
  a_objectives :: "Objective list"
  a_radiant_win :: bool

definition scoreTeamMatch :: "TeamMatchArgs \<Rightarrow> int" where
  "scoreTeamMatch a =
     (let teamWon = ((a_side a = Radiant \<and> a_radiant_win a) \<or> (a_side a = Dire \<and> \<not> a_radiant_win a));
          pts = 0;
          pts = pts + towersDestroyedBy (a_side a) (a_tower_status_radiant a) (a_tower_status_dire a) * 1;
          pts = pts + raxDestroyedBy (a_side a) (a_barracks_status_radiant a) (a_barracks_status_dire a) * 1;
          pts = pts + roshansForSide (a_objectives a) (a_side a) * 3;
          pts = (if firstBloodForSide (a_objectives a) (a_side a) then pts + 2 else pts);
          pts = (if teamWon then pts + 2 else pts)
      in pts)"

subsection \<open>\<open>index.ts\<close>: structures, roshans, first blood\<close>

text \<open>
  \<open>bitCount = (n, bits = 32) => { n = toInt(n); let c = 0;
     for (let i = 0; i < bits; i++) if ((n >> i) & 1) c++; return c; }\<close>.
  \<open>n >> i\<close> takes the signed 32-bit value of \<open>n\<close> and shifts it arithmetically by
  \<open>i mod 32\<close>.
\<close>

definition bitCount :: "int \<Rightarrow> nat \<Rightarrow> nat" where
  "bitCount n bits =
     fold (\<lambda>i c. if drop_bit (i mod 32) (signed_take_bit 31 n) AND 1 \<noteq> 0 then c + 1 else c)
       [0..<bits] 0"

definition towersDestroyedByRadiant :: "MatchDoc \<Rightarrow> int" where
  "towersDestroyedByRadiant m = 11 - int (bitCount (tower_status_dire m) 11)"

definition towersDestroyedByDire :: "MatchDoc \<Rightarrow> int" where
  "towersDestroyedByDire m = 11 - int (bitCount (tower_status_radiant m) 11)"

definition barracksDestroyedByRadiant :: "MatchDoc \<Rightarrow> int" where
  "barracksDestroyedByRadiant m = 6 - int (bitCount (barracks_status_dire m) 6)"

definition barracksDestroyedByDire :: "MatchDoc \<Rightarrow> int" where
  "barracksDestroyedByDire m = 6 - int (bitCount (barracks_status_radiant m) 6)"

text \<open>The loop of \<open>roshansByTeam\<close> in \<open>index.ts\<close>: objective events only.\<close>

fun roshanObjLoop :: "Objective list \<Rightarrow> SidePair \<Rightarrow> SidePair" where
  "roshanObjLoop [] out = out"
| "roshanObjLoop (ob # obs) out =
     (if otype ob = ''CHAT_MESSAGE_ROSHAN_KILL''
      then (let slot = toInt (o_player_slot ob)
            in if slot < 128 then roshanObjLoop obs (out\<lparr>radiant := radiant out + 1\<rparr>)
               else roshanObjLoop obs (out\<lparr>dire := dire out + 1\<rparr>))
      else roshanObjLoop obs out)"

definition roshansByTeam :: "MatchDoc \<Rightarrow> SidePair" where
  "roshansByTeam m = roshanObjLoop (objectives m) \<lparr>radiant = 0, dire = 0\<rparr>"

text \<open>
  \<open>roshansByTeam\<close> as revised in the slim-projection variant of \<open>index.ts\<close>
  (\<open>_p3\<close>): the same loop with the flag \<open>sawObjective\<close>, then the fallback over the
  player rows, \<open>toInt(p?.roshans_killed ?? p?.roshan_kills ?? 0)\<close>.
\<close>

fun roshanObjLoop_p3 :: "Objective list \<Rightarrow> SidePair \<times> bool \<Rightarrow> SidePair \<times> bool" where
  "roshanObjLoop_p3 [] st = st"
| "roshanObjLoop_p3 (ob # obs) (out, sawObjective) =
     (if otype ob = ''CHAT_MESSAGE_ROSHAN_KILL''
      then (let slot = toInt (o_player_slot ob)
            in if slot < 128 then roshanObjLoop_p3 obs (out\<lparr>radiant := radiant out + 1\<rparr>, True)
               else roshanObjLoop_p3 obs (out\<lparr>dire := dire out + 1\<rparr>, True))
      else roshanObjLoop_p3 obs (out, sawObjective))"

definition roshanCounter :: "Player \<Rightarrow> int" where
  "roshanCounter p =
     toInt (case roshans_killed p of Some v \<Rightarrow> Some v
            | None \<Rightarrow> (case roshan_kills p of Some v \<Rightarrow> Some v | None \<Rightarrow> Some 0))"

fun roshanPlayerLoop :: "Player list \<Rightarrow> SidePair \<Rightarrow> SidePair" where
  "roshanPlayerLoop [] out = out"
| "roshanPlayerLoop (p # ps) out =
     (let rk = roshanCounter p
      in if rk > 0
         then (let slot = toInt (player_slot p)
               in if slot < 128 then roshanPlayerLoop ps (out\<lparr>radiant := radiant out + rk\<rparr>)
                  else roshanPlayerLoop ps (out\<lparr>dire := dire out + rk\<rparr>))
         else roshanPlayerLoop ps out)"

definition roshansByTeam_p3 :: "MatchDoc \<Rightarrow> SidePair" where
  "roshansByTeam_p3 m =
     (case roshanObjLoop_p3 (objectives m) (\<lparr>radiant = 0, dire = 0\<rparr>, False) of
        (out, sawObjective) \<Rightarrow>
          if sawObjective then out else roshanPlayerLoop (players m) out)"

definition firstBloodTeam :: "MatchDoc \<Rightarrow> Side option" where
  "firstBloodTeam m =
     (case find (\<lambda>ob. otype ob = ''CHAT_MESSAGE_FIRST_BLOOD'') (objectives m) of
        None \<Rightarrow> None
      | Some fb \<Rightarrow> Some (if toInt (o_player_slot fb) < 128 then Radiant else Dire))"

subsection \<open>\<open>index.ts\<close>: \<open>isRadiantForTeam\<close> and \<open>scoreTeamCardInMatch\<close>\<close>

text \<open>
  \<open>teamKey = (x) => String(x ?? "").trim().toLowerCase().replace(/\s+/g, "_")\<close>.
\<close>

definition trim :: "string \<Rightarrow> string" where
  "trim s = rev (dropWhile isSpace (rev (dropWhile isSpace s)))"

definition toLowerChar :: "char \<Rightarrow> char" where
  "toLowerChar c =
     (if 65 \<le> (of_char c :: nat) \<and> (of_char c :: nat) \<le> 90 then char_of ((of_char c :: nat) + 32) else c)"

text \<open>\<open>replace(/\s+/g, "_")\<close>: every maximal run of white space becomes one underscore.\<close>

fun replaceWs :: "bool \<Rightarrow> string \<Rightarrow> string" where
  "replaceWs inRun [] = []"
| "replaceWs inRun (c # cs) =
     (if isSpace c then (if inRun then replaceWs True cs else CHR ''_'' # replaceWs True cs)
      else c # replaceWs False cs)"

definition teamKey :: "string \<Rightarrow> string" where
  "teamKey x = replaceWs False (map toLowerChar (trim x))"

text \<open>
  \<open>isRadiantForTeam\<close>: \<open>Some True\<close> is radiant, \<open>Some False\<close> dire, \<open>None\<close> the
  JavaScript \<open>null\<close>. The selection is the lineup's \<open>teamCard\<close> string.
\<close>

definition isRadiantForTeam :: "MatchDoc \<Rightarrow> string \<Rightarrow> bool option" where
  "isRadiantForTeam m teamSel =
     (if teamSel = [] then None
      else if allDigits teamSel \<and> radiant_team_id m = toIntStr teamSel then Some True
      else if allDigits teamSel \<and> dire_team_id m = toIntStr teamSel then Some False
      else (let rName = teamKey (radiant_name m); dName = teamKey (dire_name m); sel = teamKey teamSel
            in if rName \<noteq> [] \<and> sel \<noteq> [] \<and> rName = sel then Some True
               else if dName \<noteq> [] \<and> sel \<noteq> [] \<and> dName = sel then Some False
               else None))"

text \<open>
  \<open>scoreTeamCardInMatch\<close>, parameterised by the roshan counter in use: \<open>roshansByTeam\<close>
  in \<open>index.ts\<close>, \<open>roshansByTeam_p3\<close> in its slim-projection variant.
\<close>

definition scoreTeamCardWith :: "(MatchDoc \<Rightarrow> SidePair) \<Rightarrow> string \<Rightarrow> MatchDoc \<Rightarrow> rat" where
  "scoreTeamCardWith roshansFn teamId m =
     (case isRadiantForTeam m teamId of
        None \<Rightarrow> 0
      | Some side \<Rightarrow>
          (let pts = 0;
               pts = pts + of_int (if side then towersDestroyedByRadiant m else towersDestroyedByDire m)
                            * towers (teamR SCORING);
               pts = pts + of_int (if side then barracksDestroyedByRadiant m else barracksDestroyedByDire m)
                            * barracks (teamR SCORING);
               ros = roshansFn m;
               pts = pts + of_int (if side then radiant ros else dire ros) * roshans (teamR SCORING);
               fb = firstBloodTeam m;
               pts = (if (fb = Some Radiant \<and> side) \<or> (fb = Some Dire \<and> \<not> side)
                      then pts + firstBlood (teamR SCORING) else pts);
               pts = (if (side \<and> radiant_win m) \<or> (\<not> side \<and> \<not> radiant_win m)
                      then pts + teamWin (teamR SCORING) else pts)
           in pts))"

definition scoreTeamCardInMatch :: "string \<Rightarrow> MatchDoc \<Rightarrow> rat" where
  "scoreTeamCardInMatch teamId m = scoreTeamCardWith roshansByTeam teamId m"

definition scoreTeamCardInMatch_p3 :: "string \<Rightarrow> MatchDoc \<Rightarrow> rat" where
  "scoreTeamCardInMatch_p3 teamId m = scoreTeamCardWith roshansByTeam_p3 teamId m"

section \<open>Series sweeps\<close>

subsection \<open>\<open>scoring.ts\<close>: \<open>sweepBonus\<close>\<close>

definition sweepBonus :: "int \<Rightarrow> int \<Rightarrow> int \<Rightarrow> SidePair" where
  "sweepBonus seriesType radiantWins direWins =
     (let out = \<lparr>radiant = 0, dire = 0\<rparr>;
          out = (if seriesType = 1 \<and> (radiantWins = 2 \<or> direWins = 2)
                 then (if radiantWins = 2 then out\<lparr>radiant := radiant out + 15\<rparr>
                       else out\<lparr>dire := dire out + 15\<rparr>)
                 else out);
          out = (if seriesType = 2 \<and> (radiantWins = 3 \<or> direWins = 3)
                 then (if radiantWins = 3 then out\<lparr>radiant := radiant out + 15\<rparr>
                       else out\<lparr>dire := dire out + 15\<rparr>)
                 else out)
      in out)"

subsection \<open>\<open>index.ts\<close>: \<open>seriesWinsForDay\<close> and \<open>addSweepBonuses\<close>\<close>

record LineupDoc =
  l_tid :: string
  l_dateKey :: string
  ownerUid :: string
  mid :: string
  managerName :: "string option"
  captain :: string
  cores :: "string list"
  supports :: "string list"
  teamCard :: string
  locked :: bool

record SeriesWins =
  radiant_team :: int
  radiant_wins :: int
  dire_team :: int
  dire_wins :: int

text \<open>\<open>m.series_id || m.match_id\<close>.\<close>

definition seriesKey :: "MatchDoc \<Rightarrow> int" where
  "seriesKey m = (if series_id m \<noteq> 0 then series_id m else match_id m)"

fun seriesWinsLoop :: "MatchDoc list \<Rightarrow> (int \<rightharpoonup> SeriesWins) \<Rightarrow> (int \<rightharpoonup> SeriesWins)" where
  "seriesWinsLoop [] mp = mp"
| "seriesWinsLoop (m # ms) mp =
     (let sid = seriesKey m;
          mp = (if mp sid = None
                then mp(sid \<mapsto> \<lparr>radiant_team = radiant_team_id m, radiant_wins = 0,
                                dire_team = dire_team_id m, dire_wins = 0\<rparr>)
                else mp);
          mp = (case mp sid of
                  None \<Rightarrow> mp
                | Some w \<Rightarrow>
                    if radiant_win m then mp(sid \<mapsto> w\<lparr>radiant_wins := radiant_wins w + 1\<rparr>)
                    else mp(sid \<mapsto> w\<lparr>dire_wins := dire_wins w + 1\<rparr>))
      in seriesWinsLoop ms mp)"

definition seriesWinsForDay :: "MatchDoc list \<Rightarrow> (int \<rightharpoonup> SeriesWins)" where
  "seriesWinsForDay matches = seriesWinsLoop matches Map.empty"

text \<open>
  \<open>bySeries\<close>, a \<open>Map\<close> iterated in insertion order: an association list whose keys
  appear in the order of their first match.
\<close>

fun bySeriesLoop :: "MatchDoc list \<Rightarrow> (int \<times> MatchDoc list) list \<Rightarrow> (int \<times> MatchDoc list) list" where
  "bySeriesLoop [] acc = acc"
| "bySeriesLoop (m # ms) acc =
     (let sid = seriesKey m;
          acc = (if map_of acc sid = None then acc @ [(sid, [])] else acc);
          acc = map (\<lambda>(k, pack). if k = sid then (k, pack @ [m]) else (k, pack)) acc
      in bySeriesLoop ms acc)"

text \<open>The sweep decision for one series: \<open>None\<close> is \<open>continue\<close>.\<close>

definition sweepTeamOf :: "SeriesWins \<Rightarrow> int option" where
  "sweepTeamOf w =
     (let sweepTeamId = None;
          sweepTeamId = (if radiant_wins w \<ge> 2 \<and> dire_wins w = 0 then Some (radiant_team w) else sweepTeamId);
          sweepTeamId = (if dire_wins w \<ge> 2 \<and> radiant_wins w = 0 then Some (dire_team w) else sweepTeamId)
      in case sweepTeamId of
           None \<Rightarrow> None
         | Some t \<Rightarrow> if t = 0 then None else Some t)"

definition playedSweep :: "MatchDoc list \<Rightarrow> string \<Rightarrow> int \<Rightarrow> bool" where
  "playedSweep pack pid sweepTeamId =
     list_ex (\<lambda>m. case summarizePlayers m pid of
                    None \<Rightarrow> False
                  | Some row \<Rightarrow>
                      (if r_isRadiant row then radiant_team_id m else dire_team_id m) = sweepTeamId)
       pack"

record Sweeps =
  playerSweeps :: "string \<rightharpoonup> rat"
  teamSweep :: rat

definition creditPlayers :: "Scoring \<Rightarrow> MatchDoc list \<Rightarrow> int \<Rightarrow> string list \<Rightarrow> (string \<rightharpoonup> rat) \<Rightarrow> (string \<rightharpoonup> rat)" where
  "creditPlayers cfg pack sweepTeamId pids ps =
     fold (\<lambda>pid ps. if playedSweep pack pid sweepTeamId
                     then ps(pid \<mapsto> (case ps pid of None \<Rightarrow> 0 | Some v \<Rightarrow> v) + sweepP (playersR cfg))
                     else ps)
       pids ps"

fun sweepLoop ::
  "Scoring \<Rightarrow> LineupDoc \<Rightarrow> int option \<Rightarrow> (int \<rightharpoonup> SeriesWins) \<Rightarrow> (int \<times> MatchDoc list) list \<Rightarrow> Sweeps \<Rightarrow> Sweeps"
where
  "sweepLoop cfg lineup teamId series [] acc = acc"
| "sweepLoop cfg lineup teamId series ((sid, pack) # rest) acc =
     (case series sid of
        None \<Rightarrow> sweepLoop cfg lineup teamId series rest acc
      | Some w \<Rightarrow>
          (case sweepTeamOf w of
             None \<Rightarrow> sweepLoop cfg lineup teamId series rest acc
           | Some sweepTeamId \<Rightarrow>
               (let acc = (if teamId \<noteq> None \<and> teamId \<noteq> Some 0 \<and> teamId = Some sweepTeamId
                           then acc\<lparr>teamSweep := teamSweep acc + sweepT (teamR cfg)\<rparr> else acc);
                    acc = acc\<lparr>playerSweeps :=
                            creditPlayers cfg pack sweepTeamId
                              ([captain lineup] @ cores lineup @ supports lineup) (playerSweeps acc)\<rparr>
                in sweepLoop cfg lineup teamId series rest acc)))"

definition addSweepBonusesWith :: "Scoring \<Rightarrow> LineupDoc \<Rightarrow> MatchDoc list \<Rightarrow> Sweeps" where
  "addSweepBonusesWith cfg lineup matches =
     (let series = seriesWinsForDay matches;
          teamId = (if teamCard lineup \<noteq> [] then Some (toIntStr (teamCard lineup)) else None);
          bySeries = bySeriesLoop matches []
      in sweepLoop cfg lineup teamId series bySeries \<lparr>playerSweeps = Map.empty, teamSweep = 0\<rparr>)"

definition addSweepBonuses :: "LineupDoc \<Rightarrow> MatchDoc list \<Rightarrow> Sweeps" where
  "addSweepBonuses lineup matches = addSweepBonusesWith SCORING lineup matches"

text \<open>The slim-projection variant has the same code with \<open>players.sweep = 30\<close>.\<close>

definition SCORING_p3 :: Scoring where
  "SCORING_p3 = SCORING\<lparr>playersR := (playersR SCORING)\<lparr>sweepP := 30\<rparr>\<rparr>"

definition addSweepBonuses_p3 :: "LineupDoc \<Rightarrow> MatchDoc list \<Rightarrow> Sweeps" where
  "addSweepBonuses_p3 lineup matches = addSweepBonusesWith SCORING_p3 lineup matches"

section \<open>Day aggregation\<close>

text \<open>
  The Firestore collections: each is the list of its documents (id and data) in the order
  a query returns them. \<open>set(doc, {merge: true})\<close> with every modelled field present
  replaces the data of the document with that id, or adds the document.
\<close>

record LeaderboardEntry =
  e_mid :: string
  e_managerName :: "string option"
  totalPoints :: rat

record Db =
  matchesC :: "(string \<times> MatchDoc) list"
  lineupsC :: "(string \<times> LineupDoc) list"
  leaderboardsC :: "(string \<times> LeaderboardEntry list) list"

definition docGet :: "(string \<times> 'a) list \<Rightarrow> string \<Rightarrow> 'a option" where
  "docGet coll docId = map_of coll docId"

definition docSet :: "(string \<times> 'a) list \<Rightarrow> string \<Rightarrow> 'a \<Rightarrow> (string \<times> 'a) list" where
  "docSet coll docId d =
     (if map_of coll docId = None then coll @ [(docId, d)]
      else map (\<lambda>(k, v). if k = docId then (k, d) else (k, v)) coll)"

text \<open>
  \<open>Number(x.toFixed(2))\<close> on an exact value: the nearest multiple of 1/100, a tie going
  away from zero.
\<close>

definition toFixed2 :: "rat \<Rightarrow> rat" where
  "toFixed2 x =
     (if x < 0 then - (of_int \<lfloor>(- x) * 100 + 1 / 2\<rfloor> / 100) else of_int \<lfloor>x * 100 + 1 / 2\<rfloor> / 100)"

text \<open>\<open>playerSweeps.get(pid) || 0\<close>.\<close>

definition sweepOf :: "Sweeps \<Rightarrow> string \<Rightarrow> rat" where
  "sweepOf sw pid = (case playerSweeps sw pid of None \<Rightarrow> 0 | Some v \<Rightarrow> v)"

text \<open>\<open>L.ownerUid || L.mid || "unknown"\<close>.\<close>

definition entryMid :: "LineupDoc \<Rightarrow> string" where
  "entryMid L = (if ownerUid L \<noteq> [] then ownerUid L else if mid L \<noteq> [] then mid L else ''unknown'')"

text \<open>\<open>SCORING.captainMultiplier || 1\<close>.\<close>

definition multiplierOr1 :: "rat \<Rightarrow> rat" where
  "multiplierOr1 x = (if x = 0 then 1 else x)"

subsection \<open>\<open>index.ts\<close>: \<open>scoreDay\<close>\<close>

definition lineupEntry :: "MatchDoc list \<Rightarrow> LineupDoc \<Rightarrow> LeaderboardEntry" where
  "lineupEntry matches L =
     (let cap = captain L; coreIds = cores L; sups = supports L; tcard = teamCard L;
          sw = addSweepBonuses L matches;
          capPts = foldl (\<lambda>acc m. acc + scorePlayerInMatch cap m) 0 matches + sweepOf sw cap;
          corePts = foldl (\<lambda>acc pid. foldl (\<lambda>acc m. acc + scorePlayerInMatch pid m) acc matches
                                        + sweepOf sw pid) 0 coreIds;
          supPts = foldl (\<lambda>acc pid. foldl (\<lambda>acc m. acc + scorePlayerInMatch pid m) acc matches
                                       + sweepOf sw pid) 0 sups;
          teamPts = foldl (\<lambda>acc m. acc + scoreTeamCardInMatch tcard m) 0 matches + teamSweep sw;
          total = capPts * multiplierOr1 (captainMultiplier SCORING) + corePts + supPts + teamPts
      in \<lparr>e_mid = entryMid L, e_managerName = managerName L, totalPoints = toFixed2 total\<rparr>)"

definition scoreDay :: "Db \<Rightarrow> string \<Rightarrow> string \<Rightarrow> Db \<times> LeaderboardEntry list" where
  "scoreDay db t dk =
     (let matches = map snd (filter (\<lambda>(k, m). tid m = t \<and> dateKey m = dk) (matchesC db));
          lineups = map snd (filter (\<lambda>(k, L). l_tid L = t \<and> l_dateKey L = dk) (lineupsC db));
          entries = map (lineupEntry matches) lineups;
          lbId = t @ ''_'' @ dk
      in (db\<lparr>leaderboardsC := docSet (leaderboardsC db) lbId entries\<rparr>, entries))"

subsection \<open>Sorting a leaderboard\<close>

text \<open>
  \<open>entries.sort((a, b) => b.totalPoints - a.totalPoints)\<close>, a stable sort by descending
  total. It is used by the slim-projection variant and by the provider-driven \<open>scoreDay\<close>,
  on entries that may carry more fields than the total.
\<close>

definition sortEntries :: "'a LeaderboardEntry_scheme list \<Rightarrow> 'a LeaderboardEntry_scheme list" where
  "sortEntries entries = sort_key (\<lambda>e. - totalPoints e) entries"

text \<open>Descending by total: each entry's total is at least that of every later entry.\<close>

definition sortedDesc :: "'a LeaderboardEntry_scheme list \<Rightarrow> bool" where
  "sortedDesc entries = sorted_wrt (\<lambda>a b. totalPoints a \<ge> totalPoints b) entries"

subsection \<open>The slim-projection variant: \<open>scoreDay\<close> with the roster breakdown\<close>

text \<open>
  This variant reads only completed matches, looks up the display name of the lineup's team
  in the \<open>teams\<close> collection, rounds each roster item on its own, takes the sum of the
  rounded items as the total, and sorts the entries before the write.
\<close>

text \<open>
  A document of \<open>teams\<close>: a field that is missing (or not a string) is \<open>None\<close>.
\<close>

record TeamDoc =
  tm_name :: "string option"
  tm_displayName :: "string option"
  tm_tag :: "string option"

text \<open>\<open>a || b\<close> on optional strings: the empty string is falsy.\<close>

definition orString :: "string option \<Rightarrow> string option \<Rightarrow> string option" where
  "orString a b = (case a of None \<Rightarrow> b | Some v \<Rightarrow> if v = [] then b else Some v)"

text \<open>
  \<open>resolveTeamPrettyName\<close>: \<open>None\<close> is \<open>undefined\<close>, returned when the document does
  not exist or has no name that is non-empty after trimming.
\<close>

definition resolveTeamPrettyName :: "(string \<times> TeamDoc) list \<Rightarrow> string \<Rightarrow> string option" where
  "resolveTeamPrettyName teams teamId =
     (case docGet teams teamId of
        None \<Rightarrow> None
      | Some d \<Rightarrow>
          (case orString (tm_name d) (orString (tm_displayName d) (tm_tag d)) of
             None \<Rightarrow> None
           | Some name \<Rightarrow> if trim name \<noteq> [] then Some name else None))"

text \<open>
  \<open>RosterItem\<close>: the role, the player or team id, for the team its display name
  (\<open>None\<close> is a \<open>name: undefined\<close>), and the rounded points.
\<close>

datatype RosterItem =
    Captain string rat
  | Core string rat
  | Support string rat
  | Team string "string option" rat

fun itemPoints :: "RosterItem \<Rightarrow> rat" where
  "itemPoints (Captain pid pts) = pts"
| "itemPoints (Core pid pts) = pts"
| "itemPoints (Support pid pts) = pts"
| "itemPoints (Team teamId name pts) = pts"

fun nameUndefined :: "RosterItem \<Rightarrow> bool" where
  "nameUndefined (Team teamId None pts) = True"
| "nameUndefined item = False"

record LeaderboardEntry3 = LeaderboardEntry +
  roster :: "RosterItem list"

record Db3 =
  matches3 :: "(string \<times> MatchDoc) list"
  lineups3 :: "(string \<times> LineupDoc) list"
  teams3 :: "(string \<times> TeamDoc) list"
  leaderboards3 :: "(string \<times> LeaderboardEntry3 list) list"

definition lineupEntry_p3 :: "(string \<times> TeamDoc) list \<Rightarrow> MatchDoc list \<Rightarrow> LineupDoc \<Rightarrow> LeaderboardEntry3" where
  "lineupEntry_p3 teams matches L =
     (let cap = captain L; coreIds = cores L; sups = supports L; tcard = teamCard L;
          sw = addSweepBonuses_p3 L matches;
          capRaw = foldl (\<lambda>acc m. acc + scorePlayerInMatch cap m) 0 matches + sweepOf sw cap;
          coreRaw = map (\<lambda>pid. foldl (\<lambda>acc m. acc + scorePlayerInMatch pid m) 0 matches + sweepOf sw pid) coreIds;
          supRaw = map (\<lambda>pid. foldl (\<lambda>acc m. acc + scorePlayerInMatch pid m) 0 matches + sweepOf sw pid) sups;
          teamRaw = foldl (\<lambda>acc m. acc + scoreTeamCardInMatch_p3 tcard m) 0 matches + teamSweep sw;
          capPts = capRaw * multiplierOr1 (captainMultiplier SCORING_p3);
          items = [Captain cap (toFixed2 capPts)]
                  @ map (\<lambda>(pid, raw). Core pid (toFixed2 raw)) (zip coreIds coreRaw)
                  @ map (\<lambda>(pid, raw). Support pid (toFixed2 raw)) (zip sups supRaw)
                  @ (if tcard \<noteq> []
                     then [Team tcard (resolveTeamPrettyName teams tcard) (toFixed2 teamRaw)]
                     else []);
          total = foldl (\<lambda>acc r. acc + itemPoints r) 0 items
      in \<lparr>e_mid = entryMid L, e_managerName = managerName L, totalPoints = toFixed2 total,
          roster = items\<rparr>)"

text \<open>
  This variant does not set \<open>ignoreUndefinedProperties\<close>, so Firestore refuses a document
  that holds an \<open>undefined\<close> value: the \<open>set\<close> throws and nothing is written.
\<close>

datatype FirestoreError = UndefinedValue

definition holdsUndefined :: "LeaderboardEntry3 list \<Rightarrow> bool" where
  "holdsUndefined entries = list_ex (\<lambda>e. list_ex nameUndefined (roster e)) entries"

definition scoreDay_p3 :: "Db3 \<Rightarrow> string \<Rightarrow> string \<Rightarrow> FirestoreError + (Db3 \<times> LeaderboardEntry3 list)" where
  "scoreDay_p3 db t dk =
     (let matches = map snd (filter (\<lambda>(k, m). tid m = t \<and> dateKey m = dk \<and> complete m) (matches3 db));
          lineups = map snd (filter (\<lambda>(k, L). l_tid L = t \<and> l_dateKey L = dk) (lineups3 db));
          entries = map (lineupEntry_p3 (teams3 db) matches) lineups;
          entries = sortEntries entries;
          lbId = t @ ''_'' @ dk
      in if holdsUndefined entries then Inl UndefinedValue
         else Inr (db\<lparr>leaderboards3 := docSet (leaderboards3 db) lbId entries\<rparr>, entries))"

subsection \<open>The provider-driven \<open>scoreDay\<close>: its leaderboard step\<close>

text \<open>
  The third \<open>scoreDay\<close> of the repository (beside \<open>firebaseAdmin.ts\<close>) scores with
  \<open>scoring.ts\<close> and stores one \<open>scores_manager_day\<close> document per manager. Its last step
  reads these documents for the day and writes them sorted:
  \<open>docs.map(d => ({mid, totalPoints})).sort((a, b) => b.totalPoints - a.totalPoints)\<close>.
\<close>

definition dayLeaderboard :: "(string \<times> rat) list \<Rightarrow> LeaderboardEntry list" where
  "dayLeaderboard dayDocs =
     sortEntries (map (\<lambda>(m, total). \<lparr>e_mid = m, e_managerName = None, totalPoints = total\<rparr>) dayDocs)"

section \<open>Match cache\<close>

text \<open>
  The match detail as the provider returns it. \<open>None\<close> in \<open>raw_players\<close> or
  \<open>raw_objectives\<close> is a field that is not an array. The names are the truthiness
  of the raw field: \<open>match.radiant_name || ""\<close>.
\<close>

record RawMatch =
  raw_match_id :: "int option"
  raw_matchId :: "int option"
  raw_series_id :: "int option"
  raw_seriesId :: "int option"
  raw_series_type :: "int option"
  raw_seriesType :: "int option"
  raw_radiant_team_id :: "int option"
  raw_dire_team_id :: "int option"
  raw_radiant_win :: bool
  raw_duration :: "int option"
  raw_tower_status_radiant :: "int option"
  raw_tower_status_dire :: "int option"
  raw_barracks_status_radiant :: "int option"
  raw_barracks_status_dire :: "int option"
  raw_objectives :: "Objective list option"
  raw_players :: "Player list option"
  raw_start_time :: "int option"
  raw_startTime :: "int option"
  raw_radiant_name :: string
  raw_dire_name :: string

text \<open>\<open>a ?? b\<close> and \<open>a || b\<close> on optional numbers.\<close>

definition nullishOr :: "int option \<Rightarrow> int option \<Rightarrow> int option" where
  "nullishOr a b = (case a of None \<Rightarrow> b | Some v \<Rightarrow> Some v)"

definition falsyOr :: "int option \<Rightarrow> int option \<Rightarrow> int option" where
  "falsyOr a b = (case a of None \<Rightarrow> b | Some v \<Rightarrow> if v = 0 then b else Some v)"

text \<open>
  \<open>looksComplete\<close> reads two fields of its argument: \<open>players\<close> (\<open>None\<close> when it is not
  an array) and \<open>duration\<close>.
\<close>

definition looksComplete :: "Player list option \<Rightarrow> int option \<Rightarrow> bool" where
  "looksComplete ps dur =
     (let hasPlayers = (case ps of None \<Rightarrow> False | Some xs \<Rightarrow> length xs = 10);
          hasDuration = (toInt dur > 0)
      in hasPlayers \<and> hasDuration)"

text \<open>
  \<open>yyyymmddFromUTC\<close>. The calendar fields of a \<open>Date\<close> come from the JavaScript
  library: \<open>utcFields ms\<close> stands for
  \<open>(getUTCFullYear(), getUTCMonth(), getUTCDate())\<close> of \<open>new Date(ms)\<close>.
\<close>

definition padStart2 :: "string \<Rightarrow> string" where
  "padStart2 s = (if length s < 2 then replicate (2 - length s) CHR ''0'' @ s else s)"

definition yyyymmddFromUTC :: "(int \<Rightarrow> int \<times> int \<times> int) \<Rightarrow> int \<Rightarrow> string" where
  "yyyymmddFromUTC utcFields ms =
     (case utcFields ms of
        (y, mo, d) \<Rightarrow> jsString y @ padStart2 (jsString (mo + 1)) @ padStart2 (jsString d))"

record UpsertResult =
  u_dateKey :: string
  u_match_id :: int
  u_complete :: bool

definition upsertMatchDoc ::
  "(int \<Rightarrow> int \<times> int \<times> int) \<Rightarrow> string \<Rightarrow> RawMatch \<Rightarrow> Db \<Rightarrow> Db \<times> UpsertResult" where
  "upsertMatchDoc utcFields t match db =
     (let date = toInt (falsyOr (raw_start_time match) (raw_startTime match)) * 1000;
          dk = yyyymmddFromUTC utcFields date;
          compl = looksComplete (raw_players match) (raw_duration match);
          doc = \<lparr>match_id = toInt (nullishOr (raw_match_id match) (raw_matchId match)),
                 series_id = toInt (nullishOr (raw_series_id match) (raw_seriesId match)),
                 series_type = toInt (nullishOr (raw_series_type match) (raw_seriesType match)),
                 radiant_team_id = toInt (raw_radiant_team_id match),
                 dire_team_id = toInt (raw_dire_team_id match),
                 radiant_win = raw_radiant_win match,
                 duration = toInt (raw_duration match),
                 tower_status_radiant = toInt (raw_tower_status_radiant match),
                 tower_status_dire = toInt (raw_tower_status_dire match),
                 barracks_status_radiant = toInt (raw_barracks_status_radiant match),
                 barracks_status_dire = toInt (raw_barracks_status_dire match),
                 objectives = (case raw_objectives match of None \<Rightarrow> [] | Some xs \<Rightarrow> xs),
                 players = (case raw_players match of None \<Rightarrow> [] | Some xs \<Rightarrow> xs),
                 start_time = toInt (raw_start_time match),
                 radiant_name = raw_radiant_name match,
                 dire_name = raw_dire_name match,
                 tid = t, dateKey = dk,
                 complete = compl\<rparr>
      in (db\<lparr>matchesC := docSet (matchesC db) (jsString (match_id doc)) doc\<rparr>,
          \<lparr>u_dateKey = dk, u_match_id = match_id doc, u_complete = compl\<rparr>))"

subsection \<open>The poller's freshness guard\<close>

text \<open>One row of the league's match list.\<close>

record ListRow =
  row_match_id :: "int option"
  row_matchId :: "int option"
  row_start_time :: "int option"

text \<open>
  The guard of \<open>pollOpenDota\<close> before a fetch: \<open>True\<close> when the loop goes on to fetch
  the detail, \<open>False\<close> at each \<open>continue\<close>. \<open>now\<close> is \<open>Date.now()\<close>.
\<close>

definition shouldFetch :: "int \<Rightarrow> MatchDoc option \<Rightarrow> ListRow \<Rightarrow> bool" where
  "shouldFetch now snap row =
     (case snap of
        Some existing \<Rightarrow>
          if complete existing \<or> looksComplete (Some (players existing)) (Some (duration existing))
          then False
          else (let startSec = toInt (falsyOr (Some (start_time existing)) (row_start_time row))
                in if now - startSec * 1000 < 15 * 60 * 1000 then False else True)
      | None \<Rightarrow>
          (let startSec = toInt (row_start_time row)
           in if now - startSec * 1000 < 10 * 60 * 1000 then False else True))"

text \<open>
  The body of the loop over the rows of a league list. \<open>fetchMatchDetail\<close> returns
  \<open>None\<close> when the fetch throws (the error is logged and the row skipped). The second
  component collects the date keys that gained a newly completed match.
\<close>

definition pollRow ::
  "(int \<Rightarrow> int \<times> int \<times> int) \<Rightarrow> (int \<Rightarrow> RawMatch option) \<Rightarrow> int \<Rightarrow> string \<Rightarrow> ListRow
     \<Rightarrow> Db \<times> string list \<Rightarrow> Db \<times> string list" where
  "pollRow utcFields fetchMatchDetail now t row st =
     (case st of (db, completedDates) \<Rightarrow>
        (let matchId = toInt (falsyOr (row_match_id row) (row_matchId row))
         in if matchId = 0 then st
            else (let snap = docGet (matchesC db) (jsString matchId)
                  in if \<not> shouldFetch now snap row then st
                     else (case fetchMatchDetail matchId of
                             None \<Rightarrow> st
                           | Some det \<Rightarrow>
                               (let beforeComplete = (case snap of None \<Rightarrow> False | Some d \<Rightarrow> complete d)
                                in case upsertMatchDoc utcFields t det db of
                                     (db', res) \<Rightarrow>
                                       if u_complete res \<and> \<not> beforeComplete
                                       then (db', List.insert (u_dateKey res) completedDates)
                                       else (db', completedDates))))))"

section \<open>Lock gate\<close>

subsection \<open>\<open>Date.UTC\<close>\<close>

text \<open>
  \<open>Date.UTC(year, month, date, hours, minutes, seconds)\<close> as ECMAScript defines it on
  integers: \<open>MakeFullYear\<close>, \<open>MakeDay\<close>, \<open>MakeTime\<close>, \<open>MakeDate\<close> and
  \<open>TimeClip\<close> (\<open>None\<close> is \<open>NaN\<close>). The result is in milliseconds since the epoch.
\<close>

definition dayFromYear :: "int \<Rightarrow> int" where
  "dayFromYear y = 365 * (y - 1970) + (y - 1969) div 4 - (y - 1901) div 100 + (y - 1601) div 400"

definition inLeapYear :: "int \<Rightarrow> bool" where
  "inLeapYear y = (y mod 4 = 0 \<and> (y mod 400 = 0 \<or> y mod 100 \<noteq> 0))"

definition monthStart :: "int \<Rightarrow> bool \<Rightarrow> int" where
  "monthStart mn leap =
     (let cum = [0, 31, 59, 90, 120, 151, 181, 212, 243, 273, 304, 334] ! nat mn
      in if leap \<and> mn \<ge> 2 then cum + 1 else cum)"

definition makeDay :: "int \<Rightarrow> int \<Rightarrow> int \<Rightarrow> int" where
  "makeDay y m dt =
     (let ym = y + m div 12; mn = m mod 12
      in dayFromYear ym + monthStart mn (inLeapYear ym) + dt - 1)"

definition makeTime :: "int \<Rightarrow> int \<Rightarrow> int \<Rightarrow> int \<Rightarrow> int" where
  "makeTime h mi sec ms = h * 3600000 + mi * 60000 + sec * 1000 + ms"

definition makeDate :: "int \<Rightarrow> int \<Rightarrow> int" where
  "makeDate day time = day * 86400000 + time"

definition timeClip :: "int \<Rightarrow> int option" where
  "timeClip t = (if \<bar>t\<bar> > 8640000000000000 then None else Some t)"

definition Date_UTC :: "int \<Rightarrow> int \<Rightarrow> int \<Rightarrow> int \<Rightarrow> int \<Rightarrow> int \<Rightarrow> int option" where
  "Date_UTC y m d h mi sec =
     (let yr = (if 0 \<le> y \<and> y \<le> 99 then 1900 + y else y)
      in timeClip (makeDate (makeDay yr m d) (makeTime h mi sec 0)))"

text \<open>\<open>HourFromTime\<close>, behind \<open>getUTCHours()\<close>.\<close>

definition getUTCHours :: "int \<Rightarrow> int" where
  "getUTCHours t = (t div 3600000) mod 24"

subsection \<open>\<open>index.ts\<close>: \<open>lockTimestamp\<close> and \<open>submitLineup\<close>\<close>

text \<open>
  \<open>lockTimestamp\<close> is called on keys that passed \<open>/^\d{8}$/\<close>, where \<open>Number\<close> of a
  slice is the value of its digits.
\<close>

definition lockTimestamp :: "string \<Rightarrow> int \<Rightarrow> int option" where
  "lockTimestamp dk lockHourUTC =
     (let y = parseDigits (take 4 dk);
          m = parseDigits (take 2 (drop 4 dk)) - 1;
          d = parseDigits (take 2 (drop 6 dk))
      in Date_UTC y m d lockHourUTC 0 0)"

text \<open>\<open>Date.now() >= lockTimestamp(...)\<close>; a comparison with \<open>NaN\<close> is false.\<close>

definition isLocked :: "int \<Rightarrow> string \<Rightarrow> int \<Rightarrow> bool" where
  "isLocked now dk lockHourUTC = (case lockTimestamp dk lockHourUTC of None \<Rightarrow> False | Some t \<Rightarrow> now \<ge> t)"

record TournamentDoc =
  t_name :: string
  leagueIds :: "int list"
  lockHourUTC :: "int option"
  roles :: "(nat \<times> nat) option"

definition DEFAULT_LOCK_HOUR_UTC :: int where
  "DEFAULT_LOCK_HOUR_UTC = 8"

text \<open>The lock hour \<open>getTournament\<close> returns: the default when the document or the field is missing.\<close>

definition tournamentLockHour :: "(string \<rightharpoonup> TournamentDoc) \<Rightarrow> string \<Rightarrow> int" where
  "tournamentLockHour tournaments t =
     (case tournaments t of
        None \<Rightarrow> DEFAULT_LOCK_HOUR_UTC
      | Some doc \<Rightarrow> (case lockHourUTC doc of None \<Rightarrow> DEFAULT_LOCK_HOUR_UTC | Some h \<Rightarrow> h))"

datatype CallError =
    Unauthenticated
  | InvalidArgument
  | FailedPrecondition
  | PermissionDenied
  | PlainError string

text \<open>
  The callable's request: \<open>auth_uid = None\<close> is a request without \<open>auth\<close>; a list
  field that is not an array is \<open>None\<close>; a missing string field is the empty string.
\<close>

record LineupRequest =
  auth_uid :: "string option"
  q_tid :: string
  q_dateKey :: string
  q_captain :: string
  q_cores :: "string list option"
  q_supports :: "string list option"
  q_teamCard :: string
  q_managerName :: "string option"

definition isDateKey :: "string \<Rightarrow> bool" where
  "isDateKey s = (length s = 8 \<and> list_all isDigit s)"

definition submitLineup ::
  "(string \<rightharpoonup> TournamentDoc) \<Rightarrow> int \<Rightarrow> LineupRequest \<Rightarrow> Db \<Rightarrow> CallError + (Db \<times> string)" where
  "submitLineup tournaments now req db =
     (case auth_uid req of
        None \<Rightarrow> Inl Unauthenticated
      | Some uid \<Rightarrow>
          if q_tid req = [] \<or> \<not> isDateKey (q_dateKey req) then Inl InvalidArgument
          else if isLocked now (q_dateKey req) (tournamentLockHour tournaments (q_tid req))
          then Inl FailedPrecondition
          else (let docId = q_tid req @ ''_'' @ q_dateKey req @ ''_'' @ uid;
                    payload = \<lparr>l_tid = q_tid req, l_dateKey = q_dateKey req, ownerUid = uid, mid = uid,
                               managerName = q_managerName req,
                               captain = q_captain req,
                               cores = (case q_cores req of None \<Rightarrow> [] | Some xs \<Rightarrow> xs),
                               supports = (case q_supports req of None \<Rightarrow> [] | Some xs \<Rightarrow> xs),
                               teamCard = q_teamCard req,
                               locked = False\<rparr>
                in Inr (db\<lparr>lineupsC := docSet (lineupsC db) docId payload\<rparr>, docId)))"

subsection \<open>The stand-alone \<open>submitLineup\<close> (role-count checks, hour-of-day lock)\<close>

text \<open>
  The second \<open>submitLineup\<close> of the repository. Its captain is a number
  (\<open>Number.isInteger(captain)\<close>), here \<open>None\<close> when it is not an integer; a
  \<open>teamCard\<close> that is not a string is \<open>None\<close>; \<open>roles\<close> of the tournament is the
  pair of the core and support counts, by default 3 and 2. Its comment reads
  ``respect lock: if current UTC hour >= lockHourUTC, block''.
\<close>

record LineupRequest4 =
  auth_uid4 :: "string option"
  q4_tid :: string
  q4_dateKey :: string
  q4_captain :: "int option"
  q4_cores :: "int list option"
  q4_supports :: "int list option"
  q4_teamCard :: "string option"

record LineupDoc4 =
  d4_tid :: string
  d4_dateKey :: string
  d4_mid :: string
  d4_captain :: int
  d4_cores :: "int list"
  d4_supports :: "int list"
  d4_teamCard :: string
  d4_locked :: bool

definition submitLineup4 ::
  "(string \<rightharpoonup> TournamentDoc) \<Rightarrow> int \<Rightarrow> LineupRequest4 \<Rightarrow> (string \<times> LineupDoc4) list
     \<Rightarrow> CallError + ((string \<times> LineupDoc4) list \<times> bool)" where
  "submitLineup4 tournaments now req lineups =
     (case auth_uid4 req of
        None \<Rightarrow> Inl (PlainError ''auth required'')
      | Some uid \<Rightarrow>
          if uid = [] then Inl (PlainError ''auth required'')
          else if q4_tid req = [] \<or> q4_dateKey req = [] then Inl (PlainError ''tid & dateKey required'')
          else (case tournaments (q4_tid req) of
                  None \<Rightarrow> Inl (PlainError ''tournament not found'')
                | Some cfg \<Rightarrow>
                    (let (nCores, nSupports) = (case roles cfg of None \<Rightarrow> (3, 2) | Some r \<Rightarrow> r)
                     in case q4_captain req of
                          None \<Rightarrow> Inl (PlainError ''captain steam32 required'')
                        | Some cap \<Rightarrow>
                       (case q4_cores req of
                          None \<Rightarrow> Inl (PlainError (''need '' @ natToDec nCores @ '' cores''))
                        | Some cs \<Rightarrow>
                       if length cs \<noteq> nCores then Inl (PlainError (''need '' @ natToDec nCores @ '' cores''))
                       else
                       (case q4_supports req of
                          None \<Rightarrow> Inl (PlainError (''need '' @ natToDec nSupports @ '' supports''))
                        | Some ss \<Rightarrow>
                       if length ss \<noteq> nSupports then Inl (PlainError (''need '' @ natToDec nSupports @ '' supports''))
                       else
                       (case q4_teamCard req of
                          None \<Rightarrow> Inl (PlainError ''teamCard orgId required'')
                        | Some tcard \<Rightarrow>
                            (let lockedNow = (getUTCHours now \<ge> (case lockHourUTC cfg of None \<Rightarrow> 12 | Some h \<Rightarrow> h));
                                 docId = q4_tid req @ ''_'' @ uid @ ''_'' @ q4_dateKey req
                             in Inr (docSet lineups docId
                                       \<lparr>d4_tid = q4_tid req, d4_dateKey = q4_dateKey req, d4_mid = uid,
                                        d4_captain = cap, d4_cores = cs, d4_supports = ss,
                                        d4_teamCard = tcard, d4_locked = lockedNow\<rparr>,
                                     lockedNow))))))))"

section \<open>Notions the claims are stated with\<close>

text \<open>A team-card selection names a side by numeric team id, or by normalised team name.\<close>

definition selectsById :: "string \<Rightarrow> int \<Rightarrow> bool" where
  "selectsById sel teamId = (allDigits sel \<and> toIntStr sel = teamId)"

definition selectsByName :: "string \<Rightarrow> string \<Rightarrow> bool" where
  "selectsByName sel name = (teamKey name \<noteq> [] \<and> teamKey sel \<noteq> [] \<and> teamKey name = teamKey sel)"

definition isRoshanKill :: "Objective \<Rightarrow> bool" where
  "isRoshanKill ob = (otype ob = ''CHAT_MESSAGE_ROSHAN_KILL'')"

text \<open>
  The weighted sum of the spec,
  \<open>kills*3 + assists*2 + deaths*(-1) + lastHits*0.02 + denies*0.02 + wardsPlaced*0.2 + campsStacked*0.5\<close>,
  written once to compare both scoring functions with it.
\<close>

definition statPoints :: "int \<Rightarrow> int \<Rightarrow> int \<Rightarrow> int \<Rightarrow> int \<Rightarrow> int \<Rightarrow> int \<Rightarrow> rat" where
  "statPoints k a d lh dn wards camps =
     of_int k * 3 + of_int a * 2 - of_int d + of_int lh * (2 / 100) + of_int dn * (2 / 100)
     + of_int wards * (2 / 10) + of_int camps * (5 / 10)"

definition rowStatPoints :: "Row \<Rightarrow> rat" where
  "rowStatPoints row =
     statPoints (r_kills row) (r_assists row) (r_deaths row) (r_last_hits row) (r_denies row)
       (r_obs_placed row) (r_camps_stacked row)"

definition statsStatPoints :: "PlayerStats \<Rightarrow> rat" where
  "statsStatPoints p =
     statPoints (p_kills p) (p_assists p) (p_deaths p) (p_last_hits p) (p_denies p)
       (nullish0 (p_obs_placed p) + nullish0 (p_sen_placed p)) (nullish0 (p_camps_stacked p))"

definition rowWon :: "Row \<Rightarrow> MatchDoc \<Rightarrow> bool" where
  "rowWon row m = (r_isRadiant row = radiant_win m)"

text \<open>
  The player row of a match that counts for a player id: the last row of \<open>match.players\<close>
  whose account id, as a string, is the id. The empty id selects no row.
\<close>

fun lastRow :: "string \<Rightarrow> Player list \<Rightarrow> Player option" where
  "lastRow pid [] = None"
| "lastRow pid (p # ps) =
     (case lastRow pid ps of
        Some q \<Rightarrow> Some q
      | None \<Rightarrow> if pid \<noteq> [] \<and> accountKey p = pid then Some p else None)"

text \<open>The rulebook's weighted sum on a player row, absent fields counting as zero.\<close>

definition playerStatPoints :: "Player \<Rightarrow> rat" where
  "playerStatPoints q =
     statPoints (toInt (kills q)) (toInt (assists q)) (toInt (deaths q)) (toInt (last_hits q))
       (toInt (denies q)) (toInt (obs_placed q)) (toInt (camps_stacked q))"

text \<open>
  The player of a row won: the slot is radiant (below 128) and radiant won, or the slot is
  dire and radiant lost.
\<close>

definition playerWon :: "Player \<Rightarrow> MatchDoc \<Rightarrow> bool" where
  "playerWon q m = ((toInt (player_slot q) < 128) = radiant_win m)"

text \<open>The match id a list row asks for, and the match id a detail payload carries.\<close>

definition rowId :: "ListRow \<Rightarrow> int" where
  "rowId row = toInt (falsyOr (row_match_id row) (row_matchId row))"

definition detailId :: "RawMatch \<Rightarrow> int" where
  "detailId det = toInt (nullishOr (raw_match_id det) (raw_matchId det))"

text \<open>
  The win counts of the games of one series, by side, with the team ids of its first game.
\<close>

definition tally :: "MatchDoc \<Rightarrow> MatchDoc list \<Rightarrow> SeriesWins" where
  "tally m0 ms =
     \<lparr>radiant_team = radiant_team_id m0,
      radiant_wins = int (length (filter radiant_win ms)),
      dire_team = dire_team_id m0,
      dire_wins = int (length (filter (\<lambda>m. \<not> radiant_win m) ms))\<rparr>"

section \<open>Example inputs\<close>

definition emptyMatch :: MatchDoc where
  "emptyMatch =
     \<lparr>match_id = 0, series_id = 0, series_type = 0, radiant_team_id = 0, dire_team_id = 0,
      radiant_win = False, duration = 0, tower_status_radiant = 0, tower_status_dire = 0,
      barracks_status_radiant = 0, barracks_status_dire = 0, objectives = [], players = [],
      start_time = 0, radiant_name = [], dire_name = [], tid = [], dateKey = [], complete = False\<rparr>"

definition emptyPlayer :: Player where
  "emptyPlayer =
     \<lparr>account_id = None, player_slot = None, kills = None, deaths = None, assists = None,
      last_hits = None, denies = None, obs_placed = None, camps_stacked = None,
      roshans_killed = None, roshan_kills = None\<rparr>"

definition emptyLineup :: LineupDoc where
  "emptyLineup =
     \<lparr>l_tid = ''ti2025'', l_dateKey = ''20250911'', ownerUid = [], mid = [], managerName = None,
      captain = [], cores = [], supports = [], teamCard = [], locked = False\<rparr>"

text \<open>
  One game of series 77 between team 10 (radiant, ``Alpha'') and team 20 (dire, ``Beta'')
  on 2025-09-11: radiant keeps all 11 towers and 6 barracks, dire keeps none.
\<close>

definition game :: "int \<Rightarrow> int \<Rightarrow> bool \<Rightarrow> MatchDoc" where
  "game gid stype rwin =
     emptyMatch\<lparr>match_id := gid, series_id := 77, series_type := stype,
       radiant_team_id := 10, dire_team_id := 20, radiant_win := rwin, duration := 1800,
       tower_status_radiant := 2047, barracks_status_radiant := 63,
       radiant_name := ''Alpha'', dire_name := ''Beta'',
       tid := ''ti2025'', dateKey := ''20250911'', complete := True\<rparr>"

text \<open>A day with one game and two lineups: manager a holds team 20, manager b team 10.\<close>

definition dbTwoLineups :: Db where
  "dbTwoLineups =
     \<lparr>matchesC = [(''1'', game 1 1 True)],
      lineupsC = [(''ti2025_20250911_a'', emptyLineup\<lparr>ownerUid := ''a'', teamCard := ''20''\<rparr>),
                  (''ti2025_20250911_b'', emptyLineup\<lparr>ownerUid := ''b'', teamCard := ''10''\<rparr>)],
      leaderboardsC = []\<rparr>"

text \<open>
  The same day in the store of the slim-projection variant, once with the two team
  documents and once without any.
\<close>

definition dbTwoLineups3 :: Db3 where
  "dbTwoLineups3 =
     \<lparr>matches3 = matchesC dbTwoLineups, lineups3 = lineupsC dbTwoLineups,
      teams3 = [(''10'', \<lparr>tm_name = Some ''Alpha'', tm_displayName = None, tm_tag = None\<rparr>),
                (''20'', \<lparr>tm_name = None, tm_displayName = None, tm_tag = Some ''Beta''\<rparr>)],
      leaderboards3 = []\<rparr>"

definition dbNoTeams3 :: Db3 where
  "dbNoTeams3 = dbTwoLineups3\<lparr>teams3 := []\<rparr>"

text \<open>A row with 12 kills and 8 assists (kills plus assists is exactly 20) on the losing side.\<close>

definition comboStats :: PlayerStats where
  "comboStats =
     \<lparr>p_kills = 12, p_assists = 8, p_deaths = 0, p_last_hits = 0, p_denies = 0,
      p_obs_placed = None, p_sen_placed = None, p_camps_stacked = None, p_win = False\<rparr>"

definition comboMatch :: MatchDoc where
  "comboMatch =
     emptyMatch\<lparr>duration := 1800, radiant_win := False,
       players := [emptyPlayer\<lparr>account_id := Some 111, player_slot := Some 0,
                                kills := Some 12, assists := Some 8\<rparr>]\<rparr>"

text \<open>
  A game with a radiant player 111 (slot 0, one kill), a dire player 222 (slot 128, 5 kills,
  3 assists, 2 deaths, so 19 points before bonuses) and a dire row without account id.
\<close>

definition twoSidedGame :: "int \<Rightarrow> bool \<Rightarrow> MatchDoc" where
  "twoSidedGame dur rwin =
     emptyMatch\<lparr>duration := dur, radiant_win := rwin,
       players := [emptyPlayer\<lparr>account_id := Some 111, player_slot := Some 0, kills := Some 1\<rparr>,
                   emptyPlayer\<lparr>account_id := Some 222, player_slot := Some 128, kills := Some 5,
                                assists := Some 3, deaths := Some 2\<rparr>,
                   emptyPlayer\<lparr>player_slot := Some 129, kills := Some 9\<rparr>]\<rparr>"

text \<open>A match without objective events whose radiant player in slot 0 reports two roshan kills.\<close>

definition roshanFallbackMatch :: MatchDoc where
  "roshanFallbackMatch =
     emptyMatch\<lparr>players := [emptyPlayer\<lparr>account_id := Some 111, player_slot := Some 0,
                                         roshans_killed := Some 2\<rparr>]\<rparr>"

text \<open>A roshan kill by the radiant player in slot 1 whose event carries no \<open>team\<close> field.\<close>

definition roshanBySlot :: Objective where
  "roshanBySlot = \<lparr>otype = ''CHAT_MESSAGE_ROSHAN_KILL'', o_player_slot = Some 1, team = None\<rparr>"

text \<open>Match 7 cached as complete, and a later payload for it with no player rows and no duration.\<close>

definition completeMatch7 :: MatchDoc where
  "completeMatch7 =
     (game 7 1 True)\<lparr>players := replicate 10 (emptyPlayer\<lparr>account_id := Some 111\<rparr>),
                      start_time := 1757577600\<rparr>"

definition dbCached :: Db where
  "dbCached = \<lparr>matchesC = [(''7'', completeMatch7)], lineupsC = [], leaderboardsC = []\<rparr>"

definition rawPartial :: RawMatch where
  "rawPartial =
     \<lparr>raw_match_id = Some 7, raw_matchId = None, raw_series_id = Some 77, raw_seriesId = None,
      raw_series_type = Some 1, raw_seriesType = None, raw_radiant_team_id = Some 10,
      raw_dire_team_id = Some 20, raw_radiant_win = True, raw_duration = Some 0,
      raw_tower_status_radiant = Some 2047, raw_tower_status_dire = Some 0,
      raw_barracks_status_radiant = Some 63, raw_barracks_status_dire = Some 0,
      raw_objectives = None, raw_players = Some [],
      raw_start_time = Some 1757577600, raw_startTime = None,
      raw_radiant_name = ''Alpha'', raw_dire_name = ''Beta''\<rparr>"

text \<open>A provider that answers every detail request with the partial payload.\<close>

definition fetchPartial :: "int \<Rightarrow> RawMatch option" where
  "fetchPartial i = Some rawPartial"

text \<open>
  A provider that answers a request for match \<open>i\<close> with the partial payload of match
  \<open>i\<close>, and the list row of match 8, which is not cached.
\<close>

definition fetchById :: "int \<Rightarrow> RawMatch option" where
  "fetchById i = Some (rawPartial\<lparr>raw_match_id := Some i\<rparr>)"

definition row8 :: ListRow where
  "row8 = \<lparr>row_match_id = Some 8, row_matchId = None, row_start_time = Some 1757577600\<rparr>"

definition row7 :: ListRow where
  "row7 = \<lparr>row_match_id = Some 7, row_matchId = None, row_start_time = Some 1757577600\<rparr>"

text \<open>The calendar fields of any instant of 2025-09-11 (\<open>getUTCMonth\<close> counts from 0).\<close>

definition utcSep11 :: "int \<Rightarrow> int \<times> int \<times> int" where
  "utcSep11 ms = (2025, 8, 11)"

text \<open>Tournament ti2025 with lock hour 8, and a signed-in manager's submission for 2025-09-11.\<close>

definition tournamentsEx :: "string \<rightharpoonup> TournamentDoc" where
  "tournamentsEx =
     Map.empty(''ti2025'' \<mapsto> \<lparr>t_name = ''TI'', leagueIds = [], lockHourUTC = Some 8,
                                roles = None\<rparr>)"

definition emptyDb :: Db where
  "emptyDb = \<lparr>matchesC = [], lineupsC = [], leaderboardsC = []\<rparr>"

definition requestEx :: LineupRequest where
  "requestEx =
     \<lparr>auth_uid = Some ''u1'', q_tid = ''ti2025'', q_dateKey = ''20250911'', q_captain = ''111'',
      q_cores = Some [''112'', ''113'', ''114''], q_supports = Some [''115'', ''116''],
      q_teamCard = ''10'', q_managerName = None\<rparr>"

definition request4Ex :: LineupRequest4 where
  "request4Ex =
     \<lparr>auth_uid4 = Some ''u1'', q4_tid = ''ti2025'', q4_dateKey = ''20250911'', q4_captain = Some 111,
      q4_cores = Some [112, 113, 114], q4_supports = Some [115, 116], q4_teamCard = Some ''10''\<rparr>"

text \<open>2025-09-11T08:00:00Z and the second before it, in milliseconds since the epoch.\<close>

definition lockInstant :: int where
  "lockInstant = 1757577600000"

definition beforeLock :: int where
  "beforeLock = 1757577599000"

section \<open>Results on player scoring\<close>

lemma scorePlayerMatch_closed_form:
  "scorePlayerMatch p d =
     statsStatPoints p + (if p_win p then 15 else 0) + (if p_win p \<and> d < 1500 then 15 else 0)
     + (if p_kills p + p_assists p > 20 then 2 else 0)"
  by (simp add: scorePlayerMatch_def statsStatPoints_def statPoints_def Let_def)

lemma scorePlayerInMatch_closed_form:
  "summarizePlayers m pid = Some row \<Longrightarrow>
   scorePlayerInMatch pid m =
     rowStatPoints row + (if rowWon row m then 15 else 0)
     + (if rowWon row m \<and> duration m < 1500 then 15 else 0)
     + (if r_kills row + r_assists row \<ge> 20 then 2 else 0)"
  by (auto simp add: scorePlayerInMatch_def rowStatPoints_def statPoints_def rowWon_def
      SCORING_def Let_def)

lemma summarizeLoop_absent:
  "mp pid = None \<Longrightarrow> \<forall>p \<in> set ps. account_id p = None \<or> accountKey p \<noteq> pid \<Longrightarrow>
   summarizeLoop ps mp pid = None"
proof (induction ps arbitrary: mp)
  case Nil
  then show ?case by simp
next
  case (Cons p ps)
  show ?case
  proof (cases "accountKey p = []")
    case True
    with Cons show ?thesis by simp
  next
    case False
    then have "account_id p \<noteq> None"
      by (auto simp: accountKey_def split: option.splits)
    with Cons.prems have "accountKey p \<noteq> pid"
      by simp
    then have "(mp(accountKey p \<mapsto> toRow p)) pid = None"
      using Cons.prems(1) by simp
    with Cons False show ?thesis by simp
  qed
qed

subsection \<open>Win under 25 minutes\<close>

text \<open>
  What \<open>summarizePlayers\<close> holds for a player id is the summary of the last row of the
  match with that account id.
\<close>

lemma summarizeLoop_lastRow:
  "summarizeLoop ps mp pid = (case lastRow pid ps of Some q \<Rightarrow> Some (toRow q) | None \<Rightarrow> mp pid)"
proof (induction ps arbitrary: mp)
  case Nil
  then show ?case by simp
next
  case (Cons p ps)
  show ?case
  proof (cases "accountKey p = []")
    case True
    then show ?thesis
      by (auto simp: Cons.IH split: option.splits)
  next
    case False
    then show ?thesis
      by (auto simp: Cons.IH split: option.splits)
  qed
qed

lemma summarizePlayers_lastRow:
  "summarizePlayers m pid = map_option toRow (lastRow pid (players m))"
  by (simp add: summarizePlayers_def summarizeLoop_lastRow split: option.splits)

lemma scorePlayerInMatch_by_rows:
  "scorePlayerInMatch pid m =
     (case lastRow pid (players m) of
        None \<Rightarrow> 0
      | Some q \<Rightarrow>
          playerStatPoints q + (if playerWon q m then 15 else 0)
          + (if toInt (kills q) + toInt (assists q) \<ge> 20 then 2 else 0)
          + (if playerWon q m \<and> duration m < 1500 then 15 else 0))"
proof (cases "lastRow pid (players m)")
  case None
  then show ?thesis
    by (simp add: scorePlayerInMatch_def summarizePlayers_lastRow)
next
  case (Some q)
  then have "summarizePlayers m pid = Some (toRow q)"
    by (simp add: summarizePlayers_lastRow)
  from scorePlayerInMatch_closed_form [OF this] Some show ?thesis
    by (simp add: rowStatPoints_def playerStatPoints_def rowWon_def playerWon_def toRow_def)
qed

text \<open>
  Claim C6. In both scoring functions the score is the rulebook's weighted sum, plus 15 for
  a win, plus 2 for the kill-assist combo, plus the fast-win bonus of 15, and that last
  bonus is present exactly when the player won and the duration is strictly below 1500
  seconds: a winner at 1499 seconds has it, a winner at 1500 seconds does not, and a loser
  never has it whatever the duration. For \<open>scorePlayerMatch\<close> the player won when the
  row's \<open>win\<close> flag is set. For \<open>scorePlayerInMatch\<close> the row is the last row of the
  match with the player's account id, and the player won when the row's slot is on the
  winning side; for instance the dire player 222 (19 points before bonuses) scores 49 when
  dire wins in 1499 seconds, 34 when dire wins in 1500 seconds and 19 when dire loses in
  1499 seconds.
\<close>

theorem fast_win_bonus_boundary:
  "scorePlayerMatch p d
     = statsStatPoints p + (if p_win p then 15 else 0)
       + (if p_kills p + p_assists p > 20 then 2 else 0)
       + (if p_win p \<and> d < 1500 then 15 else 0)
   \<and> scorePlayerMatch (p\<lparr>p_win := True\<rparr>) 1499 = scorePlayerMatch (p\<lparr>p_win := True\<rparr>) 1500 + 15
   \<and> scorePlayerMatch (p\<lparr>p_win := False\<rparr>) d = scorePlayerMatch (p\<lparr>p_win := False\<rparr>) 1500
   \<and> scorePlayerInMatch pid m
     = (case lastRow pid (players m) of
          None \<Rightarrow> 0
        | Some q \<Rightarrow>
            playerStatPoints q + (if playerWon q m then 15 else 0)
            + (if toInt (kills q) + toInt (assists q) \<ge> 20 then 2 else 0)
            + (if playerWon q m \<and> duration m < 1500 then 15 else 0))
   \<and> scorePlayerInMatch pid (m\<lparr>duration := 1499\<rparr>)
     = scorePlayerInMatch pid (m\<lparr>duration := 1500\<rparr>)
       + (case lastRow pid (players m) of
            None \<Rightarrow> 0
          | Some q \<Rightarrow> if playerWon q m then 15 else 0)
   \<and> scorePlayerInMatch ''222'' (twoSidedGame 1499 False) = 49
   \<and> scorePlayerInMatch ''222'' (twoSidedGame 1500 False) = 34
   \<and> scorePlayerInMatch ''222'' (twoSidedGame 1499 True) = 19
   \<and> scorePlayerInMatch ''111'' (twoSidedGame 1499 True) = 33
   \<and> scorePlayerInMatch ''111'' (twoSidedGame 1500 True) = 18
   \<and> scorePlayerInMatch ''111'' (twoSidedGame 1499 False) = 3"
proof -
  have pw: "playerWon q (m\<lparr>duration := x\<rparr>) = playerWon q m" for q x
    by (simp add: playerWon_def)
  have a: "scorePlayerMatch q e
     = statsStatPoints q + (if p_win q then 15 else 0)
       + (if p_kills q + p_assists q > 20 then 2 else 0)
       + (if p_win q \<and> e < 1500 then 15 else 0)" for q e
    by (simp add: scorePlayerMatch_closed_form)
  have b: "scorePlayerInMatch pid m
     = (case lastRow pid (players m) of
          None \<Rightarrow> 0
        | Some q \<Rightarrow>
            playerStatPoints q + (if playerWon q m then 15 else 0)
            + (if toInt (kills q) + toInt (assists q) \<ge> 20 then 2 else 0)
            + (if playerWon q m \<and> duration m < 1500 then 15 else 0))"
    by (rule scorePlayerInMatch_by_rows)
  have c: "scorePlayerMatch (p\<lparr>p_win := True\<rparr>) 1499 = scorePlayerMatch (p\<lparr>p_win := True\<rparr>) 1500 + 15"
    by (simp add: a statsStatPoints_def)
  have d: "scorePlayerMatch (p\<lparr>p_win := False\<rparr>) d = scorePlayerMatch (p\<lparr>p_win := False\<rparr>) 1500"
    by (simp add: a statsStatPoints_def)
  have e: "scorePlayerInMatch pid (m\<lparr>duration := 1499\<rparr>)
     = scorePlayerInMatch pid (m\<lparr>duration := 1500\<rparr>)
       + (case lastRow pid (players m) of
            None \<Rightarrow> 0
          | Some q \<Rightarrow> if playerWon q m then 15 else 0)"
    by (simp add: scorePlayerInMatch_by_rows pw split: option.split)
  have f: "scorePlayerInMatch ''222'' (twoSidedGame 1499 False) = 49
     \<and> scorePlayerInMatch ''222'' (twoSidedGame 1500 False) = 34
     \<and> scorePlayerInMatch ''222'' (twoSidedGame 1499 True) = 19
     \<and> scorePlayerInMatch ''111'' (twoSidedGame 1499 True) = 33
     \<and> scorePlayerInMatch ''111'' (twoSidedGame 1500 True) = 18
     \<and> scorePlayerInMatch ''111'' (twoSidedGame 1499 False) = 3"
    by code_simp
  from a b c d e f show ?thesis
    by blast
qed

subsection \<open>A roster member who did not play\<close>

text \<open>
  Claim C10. When no player row of the match carries an account id whose string equals
  the player id (rows without an account id are dropped by \<open>summarizePlayers\<close> and so
  never count), \<open>scorePlayerInMatch\<close> returns exactly 0.
\<close>

theorem absent_player_scores_zero:
  assumes "\<forall>p \<in> set (players m). account_id p = None \<or> accountKey p \<noteq> pid"
  shows "scorePlayerInMatch pid m = 0"
proof -
  have "summarizePlayers m pid = None"
    unfolding summarizePlayers_def
    by (rule summarizeLoop_absent) (use assms in simp_all)
  then show ?thesis
    by (simp add: scorePlayerInMatch_def)
qed

text \<open>
  Claim C10, at a concrete input: the only row of \<open>comboMatch\<close> has account id 111, so
  player 222 scores 0 there.
\<close>

theorem absent_player_scores_zero_witness:
  "list_all (\<lambda>p. account_id p = None \<or> accountKey p \<noteq> ''222'') (players comboMatch)
   \<and> scorePlayerInMatch ''222'' comboMatch = 0"
proof -
  have h: "\<forall>p \<in> set (players comboMatch). account_id p = None \<or> accountKey p \<noteq> ''222''"
    by code_simp
  from absent_player_scores_zero [OF h] h show ?thesis
    by (simp add: list_all_iff)
qed

subsection \<open>The kill-assist combo threshold\<close>

text \<open>
  Claim C8 says that the combo bonus of 2 is added when kills plus assists is at least 20.
  \<open>scorePlayerInMatch\<close> of \<open>index.ts\<close> does so, but \<open>scorePlayerMatch\<close> of
  \<open>scoring.ts\<close> tests \<open>> 20\<close>: on the same row with 12 kills and 8 assists the first
  gives 36 + 16 + 2 = 54 and the second 52.
\<close>

theorem combo_bonus_at_twenty:
  "scorePlayerMatch comboStats 1800 = 52 \<and> scorePlayerInMatch ''111'' comboMatch = 54"
  by code_simp

section \<open>Results on team scoring\<close>

subsection \<open>A team card whose team did not play\<close>

lemma isRadiantForTeam_None:
  assumes "\<not> selectsById sel (radiant_team_id m)" and "\<not> selectsById sel (dire_team_id m)"
    and "\<not> selectsByName sel (radiant_name m)" and "\<not> selectsByName sel (dire_name m)"
  shows "isRadiantForTeam m sel = None"
  using assms by (auto simp: isRadiantForTeam_def selectsById_def selectsByName_def Let_def)

text \<open>
  Claim C9. When the selection names neither side of the match, by numeric team id or by
  normalised team name, \<open>scoreTeamCardInMatch\<close> returns exactly 0 (in \<open>index.ts\<close> and
  in its slim-projection variant).
\<close>

theorem unrelated_team_card_scores_zero:
  assumes "\<not> selectsById sel (radiant_team_id m)" and "\<not> selectsById sel (dire_team_id m)"
    and "\<not> selectsByName sel (radiant_name m)" and "\<not> selectsByName sel (dire_name m)"
  shows "scoreTeamCardInMatch sel m = 0 \<and> scoreTeamCardInMatch_p3 sel m = 0"
proof -
  have "isRadiantForTeam m sel = None"
    using assms by (rule isRadiantForTeam_None)
  then show ?thesis
    by (simp add: scoreTeamCardInMatch_def scoreTeamCardInMatch_p3_def scoreTeamCardWith_def)
qed

text \<open>
  Claim C9, at a concrete input: the game is between team 10 (``Alpha'') and team 20
  (``Beta''), and the card selects team 30.
\<close>

theorem unrelated_team_card_scores_zero_witness:
  "scoreTeamCardInMatch ''30'' (game 1 1 True) = 0 \<and> scoreTeamCardInMatch_p3 ''30'' (game 1 1 True) = 0"
proof -
  have a: "\<not> selectsById ''30'' (radiant_team_id (game 1 1 True))" by code_simp
  have b: "\<not> selectsById ''30'' (dire_team_id (game 1 1 True))" by code_simp
  have c: "\<not> selectsByName ''30'' (radiant_name (game 1 1 True))" by code_simp
  have d: "\<not> selectsByName ''30'' (dire_name (game 1 1 True))" by code_simp
  from unrelated_team_card_scores_zero [OF a b c d] show ?thesis .
qed

subsection \<open>Structures destroyed\<close>

lemma count_fold:
  "fold (\<lambda>i c. if P i then c + 1 else c) [0..<k] (c0::nat) = c0 + card {i. i < k \<and> P i}"
proof (induction k)
  case 0
  then show ?case by simp
next
  case (Suc k)
  have split: "{i. i < Suc k \<and> P i} = (if P k then insert k {i. i < k \<and> P i} else {i. i < k \<and> P i})"
    by (auto simp: less_Suc_eq)
  have fin: "finite {i. i < k \<and> P i}" by simp
  have notin: "k \<notin> {i. i < k \<and> P i}" by simp
  show ?case
    using Suc fin notin by (simp add: split)
qed

lemma js_bit_test:
  "i < 32 \<Longrightarrow> (drop_bit (i mod 32) (signed_take_bit 31 (n::int)) AND 1 \<noteq> 0) = bit n i"
proof -
  assume i: "i < 32"
  have "(drop_bit i (signed_take_bit 31 n) AND 1 \<noteq> 0) = bit (signed_take_bit 31 n) i"
    by (simp add: and_one_eq bit_iff_odd_drop_bit mod_2_eq_odd)
  also have "\<dots> = bit n i"
  proof (cases "i = 31")
    case True
    then show ?thesis by (simp add: bit_signed_take_bit_iff)
  next
    case False
    with i have "i < 31" by simp
    then show ?thesis by (simp add: bit_signed_take_bit_iff min_def)
  qed
  finally show ?thesis using i by simp
qed

text \<open>\<open>bitCount n bits\<close> is the number of set bits of \<open>n\<close> among its lowest \<open>bits\<close> bits.\<close>

lemma bitCount_card: "bits \<le> 32 \<Longrightarrow> bitCount n bits = card {i. i < bits \<and> bit n i}"
proof -
  assume b: "bits \<le> 32"
  have "fold (\<lambda>i c. if drop_bit (i mod 32) (signed_take_bit 31 n) AND 1 \<noteq> 0 then c + 1 else c) [0..<bits] (0::nat)
      = fold (\<lambda>i c. if bit n i then c + 1 else c) [0..<bits] 0"
  proof (rule fold_cong)
    fix x assume "x \<in> set [0..<bits]"
    with b have "x < 32" by simp
    then have "(drop_bit (x mod 32) (signed_take_bit 31 n) AND 1 \<noteq> 0) = bit n x"
      by (rule js_bit_test)
    then show "(\<lambda>c. if drop_bit (x mod 32) (signed_take_bit 31 n) AND 1 \<noteq> 0 then c + 1 else c)
             = (\<lambda>c::nat. if bit n x then c + 1 else c)"
      by simp
  qed simp_all
  then show ?thesis
    by (simp add: bitCount_def count_fold)
qed

text \<open>
  In \<open>index.ts\<close> a side's count comes from the opponent's mask: 11 (or 6) minus the number
  of the opponent's structures still standing.
\<close>

lemma index_structures_from_opponent:
  "towersDestroyedByRadiant m = 11 - int (card {i. i < 11 \<and> bit (tower_status_dire m) i})"
  "towersDestroyedByDire m = 11 - int (card {i. i < 11 \<and> bit (tower_status_radiant m) i})"
  "barracksDestroyedByRadiant m = 6 - int (card {i. i < 6 \<and> bit (barracks_status_dire m) i})"
  "barracksDestroyedByDire m = 6 - int (card {i. i < 6 \<and> bit (barracks_status_radiant m) i})"
  by (simp_all add: towersDestroyedByRadiant_def towersDestroyedByDire_def
      barracksDestroyedByRadiant_def barracksDestroyedByDire_def bitCount_card)

text \<open>In \<open>scoring.ts\<close> the result for a side does not depend on the opponent's mask at all.\<close>

lemma scoring_structures_from_own_mask:
  "towersDestroyedBy Radiant tr td = 11 - int (popcount tr)"
  "towersDestroyedBy Dire tr td = 11 - int (popcount td)"
  "raxDestroyedBy Radiant br bd = 6 - int (popcount br)"
  "raxDestroyedBy Dire br bd = 6 - int (popcount bd)"
  by (simp_all add: towersDestroyedBy_def raxDestroyedBy_def)

text \<open>
  Claim C4 says a side's towers and barracks destroyed are counted from the opposing
  side's masks. \<open>index.ts\<close> does so; \<open>towersDestroyedBy\<close> and \<open>raxDestroyedBy\<close> of
  \<open>scoring.ts\<close> read the side's own masks. With radiant keeping all 11 towers and 6
  barracks (masks 2047 and 63) and dire keeping none (masks 0), radiant destroyed 11 towers
  and 6 barracks: \<open>index.ts\<close> returns 11 and 6, \<open>scoring.ts\<close> returns 0 and 0.
\<close>

theorem structures_counted_from_own_mask:
  "towersDestroyedBy Radiant 2047 0 = 0
   \<and> raxDestroyedBy Radiant 63 0 = 0
   \<and> towersDestroyedByRadiant (game 1 1 True) = 11
   \<and> barracksDestroyedByRadiant (game 1 1 True) = 6"
  by code_simp

subsection \<open>Roshan kills\<close>

lemma roshanObjLoop_counts:
  "roshanObjLoop obs out =
     \<lparr>radiant = radiant out
        + int (length (filter (\<lambda>ob. isRoshanKill ob \<and> toInt (o_player_slot ob) < 128) obs)),
      dire = dire out
        + int (length (filter (\<lambda>ob. isRoshanKill ob \<and> \<not> toInt (o_player_slot ob) < 128) obs))\<rparr>"
  by (induction obs arbitrary: out) (auto simp: Let_def isRoshanKill_def)

lemma roshanObjLoop_p3_counts:
  "roshanObjLoop_p3 obs (out, saw) = (roshanObjLoop obs out, saw \<or> list_ex isRoshanKill obs)"
  by (induction obs arbitrary: out saw) (auto simp: Let_def isRoshanKill_def)

lemma roshanPlayerLoop_sums:
  "roshanPlayerLoop ps out =
     \<lparr>radiant = radiant out
        + sum_list (map roshanCounter (filter (\<lambda>p. roshanCounter p > 0 \<and> toInt (player_slot p) < 128) ps)),
      dire = dire out
        + sum_list (map roshanCounter (filter (\<lambda>p. roshanCounter p > 0 \<and> \<not> toInt (player_slot p) < 128) ps))\<rparr>"
  by (induction ps arbitrary: out) (auto simp: Let_def)

text \<open>
  Both variants of \<open>roshansByTeam\<close> bucket the roshan-kill events by player slot. Without
  such events the variant in \<open>index.ts\<close> returns zero for both sides whatever the player
  rows say, and only the slim-projection variant sums the per-player counters.
\<close>

lemma roshansByTeam_events:
  "roshansByTeam m =
     \<lparr>radiant = int (length (filter (\<lambda>ob. isRoshanKill ob \<and> toInt (o_player_slot ob) < 128) (objectives m))),
      dire = int (length (filter (\<lambda>ob. isRoshanKill ob \<and> \<not> toInt (o_player_slot ob) < 128) (objectives m)))\<rparr>"
  by (simp add: roshansByTeam_def roshanObjLoop_counts)

lemma roshansByTeam_p3_events:
  "list_ex isRoshanKill (objectives m) \<Longrightarrow> roshansByTeam_p3 m = roshansByTeam m"
  by (simp add: roshansByTeam_p3_def roshansByTeam_def roshanObjLoop_p3_counts)

lemma roshansByTeam_p3_fallback:
  "\<not> list_ex isRoshanKill (objectives m) \<Longrightarrow>
   roshansByTeam_p3 m =
     \<lparr>radiant = sum_list (map roshanCounter
                  (filter (\<lambda>p. roshanCounter p > 0 \<and> toInt (player_slot p) < 128) (players m))),
      dire = sum_list (map roshanCounter
               (filter (\<lambda>p. roshanCounter p > 0 \<and> \<not> toInt (player_slot p) < 128) (players m)))\<rparr>"
  by (simp add: roshansByTeam_p3_def roshanObjLoop_p3_counts roshanObjLoop_counts
      roshanPlayerLoop_sums list_ex_iff filter_empty_conv)

lemma roshansByTeam_no_fallback:
  "\<not> list_ex isRoshanKill (objectives m) \<Longrightarrow> roshansByTeam m = \<lparr>radiant = 0, dire = 0\<rparr>"
  by (simp add: roshansByTeam_events list_ex_iff filter_empty_conv)

text \<open>
  Claim C7 says that roshan kills are bucketed by the event's player slot and that, without
  roshan-kill events, the per-player counters are summed instead. On a match without
  events whose radiant player reports two kills, the slim-projection variant returns 2 for
  radiant, but \<open>roshansByTeam\<close> of \<open>index.ts\<close> has no fallback and returns 0. And
  \<open>roshansForSide\<close> of \<open>scoring.ts\<close> reads the event's \<open>team\<close> field, not its player
  slot: a kill by the radiant player in slot 1 is not counted for radiant.
\<close>

theorem roshan_fallback_missing:
  "roshansByTeam roshanFallbackMatch = \<lparr>radiant = 0, dire = 0\<rparr>
   \<and> roshansByTeam_p3 roshanFallbackMatch = \<lparr>radiant = 2, dire = 0\<rparr>
   \<and> roshansForSide [roshanBySlot] Radiant = 0
   \<and> roshansByTeam (emptyMatch\<lparr>objectives := [roshanBySlot]\<rparr>) = \<lparr>radiant = 1, dire = 0\<rparr>"
  by code_simp

section \<open>Results on series sweeps\<close>

text \<open>
  When \<open>sweepBonus\<close> pays: the winner's count must reach the threshold of the series
  type, but the loser's count is not looked at.
\<close>

lemma sweepBonus_radiant:
  "radiant (sweepBonus st rw dw) = (if (st = 1 \<and> rw = 2) \<or> (st = 2 \<and> rw = 3) then 15 else 0)"
  by (auto simp: sweepBonus_def Let_def)

lemma sweepBonus_dire:
  "dire (sweepBonus st rw dw)
     = (if (st = 1 \<and> rw \<noteq> 2 \<and> dw = 2) \<or> (st = 2 \<and> rw \<noteq> 3 \<and> dw = 3) then 15 else 0)"
  by (auto simp: sweepBonus_def Let_def)

text \<open>
  When \<open>addSweepBonuses\<close> sees a sweep: one side has at least two wins and the other
  none, whatever the series type; a sweeping team id of 0 is skipped.
\<close>

lemma sweepTeamOf_Some:
  "sweepTeamOf w = Some t \<longleftrightarrow>
     t \<noteq> 0 \<and> ((dire_wins w \<ge> 2 \<and> radiant_wins w = 0 \<and> t = dire_team w)
              \<or> (radiant_wins w \<ge> 2 \<and> dire_wins w = 0 \<and> t = radiant_team w))"
  by (auto simp: sweepTeamOf_def Let_def)

text \<open>
  A day whose games all belong to one series: \<open>seriesWinsForDay\<close> holds the tally of
  that series, \<open>bySeries\<close> its games, and the team bonus is paid exactly when the tally
  is a sweep by the team of the lineup's card.
\<close>

lemma seriesWinsLoop_one_series:
  assumes "\<forall>m \<in> set ms. seriesKey m = sid"
    and "mp sid = Some w"
  shows "seriesWinsLoop ms mp sid =
     Some (w\<lparr>radiant_wins := radiant_wins w + int (length (filter radiant_win ms)),
             dire_wins := dire_wins w + int (length (filter (\<lambda>m. \<not> radiant_win m) ms))\<rparr>)"
  using assms
proof (induction ms arbitrary: mp w)
  case Nil
  then show ?case by simp
next
  case (Cons m ms)
  then show ?case
    by (cases "radiant_win m") (simp_all add: Let_def)
qed

lemma seriesWinsForDay_one_series:
  assumes "\<forall>m \<in> set (m0 # ms). seriesKey m = sid"
  shows "seriesWinsForDay (m0 # ms) sid = Some (tally m0 (m0 # ms))"
proof -
  have k: "seriesKey m0 = sid" and rest: "\<forall>m \<in> set ms. seriesKey m = sid"
    using assms by simp_all
  show ?thesis
    using k seriesWinsLoop_one_series [OF rest]
    by (cases "radiant_win m0") (simp_all add: seriesWinsForDay_def Let_def tally_def)
qed

lemma bySeriesLoop_one_series:
  assumes "\<forall>m \<in> set ms. seriesKey m = sid"
  shows "bySeriesLoop ms [(sid, pack)] = [(sid, pack @ ms)]"
  using assms by (induction ms arbitrary: pack) (simp_all add: Let_def)

lemma bySeries_one_series:
  assumes "\<forall>m \<in> set (m0 # ms). seriesKey m = sid"
  shows "bySeriesLoop (m0 # ms) [] = [(sid, m0 # ms)]"
proof -
  have k: "seriesKey m0 = sid" and rest: "\<forall>m \<in> set ms. seriesKey m = sid"
    using assms by simp_all
  show ?thesis
    using k bySeriesLoop_one_series [OF rest, of "[m0]"] by (simp add: Let_def)
qed

lemma teamSweep_one_series:
  assumes "\<forall>m \<in> set (m0 # ms). seriesKey m = sid"
  shows "teamSweep (addSweepBonuses L (m0 # ms)) =
     (if teamCard L \<noteq> [] \<and> sweepTeamOf (tally m0 (m0 # ms)) = Some (toIntStr (teamCard L))
      then 15 else 0)"
proof -
  have nz: "sweepTeamOf (tally m0 (m0 # ms)) \<noteq> Some 0"
    by (simp add: sweepTeamOf_Some)
  have bs: "bySeriesLoop (m0 # ms) [] = [(sid, m0 # ms)]"
    using assms by (rule bySeries_one_series)
  have sw: "seriesWinsForDay (m0 # ms) sid = Some (tally m0 (m0 # ms))"
    using assms by (rule seriesWinsForDay_one_series)
  have "addSweepBonuses L (m0 # ms) =
      sweepLoop SCORING L (if teamCard L \<noteq> [] then Some (toIntStr (teamCard L)) else None)
        (seriesWinsForDay (m0 # ms)) [(sid, m0 # ms)] \<lparr>playerSweeps = Map.empty, teamSweep = 0\<rparr>"
    unfolding addSweepBonuses_def addSweepBonusesWith_def Let_def bs ..
  then show ?thesis
    using nz by (cases "sweepTeamOf (tally m0 (m0 # ms))") (auto simp: sw SCORING_def Let_def)
qed

text \<open>
  In \<open>addSweepBonuses\<close> a best-of-three won 2--0 by radiant (team 10) gives the team
  bonus once to a card on team 10 and nothing to a card on team 20; a 2--1 result gives
  nothing to either.
\<close>

lemma addSweepBonuses_best_of_three:
  "teamSweep (addSweepBonuses (emptyLineup\<lparr>teamCard := ''10''\<rparr>) [game 1 1 True, game 2 1 True]) = 15"
  "teamSweep (addSweepBonuses (emptyLineup\<lparr>teamCard := ''20''\<rparr>) [game 1 1 True, game 2 1 True]) = 0"
  "teamSweep (addSweepBonuses (emptyLineup\<lparr>teamCard := ''10''\<rparr>)
     [game 1 1 True, game 2 1 False, game 3 1 True]) = 0"
  "teamSweep (addSweepBonuses (emptyLineup\<lparr>teamCard := ''20''\<rparr>)
     [game 1 1 True, game 2 1 False, game 3 1 True]) = 0"
  by code_simp+

text \<open>
  Claim C1 says a sweep bonus is awarded only when one side reaches the win threshold of
  the series type (2 for type 1, 3 for type 2) while the other side has no win, so that a
  best-of-three ending 2--1 pays nothing. \<open>sweepBonus\<close> of \<open>scoring.ts\<close>, whose comments
  read ``Bo3 2--0'' and ``Bo5 3--0'', never tests the loser's count: at 2--1 it pays 15 to
  radiant. And \<open>addSweepBonuses\<close> of \<open>index.ts\<close> never reads the series type: two
  radiant wins of a best-of-five (type 2) already pay the team bonus.
\<close>

theorem sweep_bonus_without_sweep:
  "sweepBonus 1 2 1 = \<lparr>radiant = 15, dire = 0\<rparr>
   \<and> teamSweep (addSweepBonuses (emptyLineup\<lparr>teamCard := ''10''\<rparr>) [game 1 2 True, game 2 2 True]) = 15"
  by code_simp

section \<open>Results on the day aggregation\<close>

lemma docGet_docSet_same: "docGet (docSet coll k d) k = Some d"
proof (cases "map_of coll k")
  case None
  then show ?thesis by (simp add: docGet_def docSet_def map_add_def)
next
  case (Some v)
  have "map_of (map (\<lambda>(k', v). if k' = k then (k', d) else (k', v)) xs) k = Some d"
    if "map_of xs k \<noteq> None" for xs
    using that by (induction xs) (auto split: if_splits)
  with Some show ?thesis by (simp add: docGet_def docSet_def)
qed

text \<open>The sort of the slim-projection variant: descending, and the same entries.\<close>

lemma sortEntries_sorted: "sortedDesc (sortEntries es)"
proof -
  have "sorted (map (\<lambda>e. - totalPoints e) (sortEntries es))"
    by (simp add: sortEntries_def)
  then show ?thesis
    by (simp add: sortedDesc_def sorted_map sorted_wrt_iff_nth_less)
qed

lemma sortEntries_mset: "mset (sortEntries es) = mset es"
  by (simp add: sortEntries_def)

text \<open>
  When the slim-projection \<open>scoreDay\<close> writes, the document holds all entries sorted by
  descending total; it writes nothing when a team name is undefined.
\<close>

lemma scoreDay_p3_sorted:
  assumes "scoreDay_p3 db t dk = Inr (db', entries)"
  shows "sortedDesc entries"
    and "docGet (leaderboards3 db') (t @ ''_'' @ dk) = Some entries"
    and "mset entries
           = mset (map (lineupEntry_p3 (teams3 db)
                     (map snd (filter (\<lambda>(k, m). tid m = t \<and> dateKey m = dk \<and> complete m) (matches3 db))))
                   (map snd (filter (\<lambda>(k, L). l_tid L = t \<and> l_dateKey L = dk) (lineups3 db))))"
  using assms
  by (auto simp: scoreDay_p3_def Let_def sortEntries_sorted sortEntries_mset docGet_docSet_same
      split: if_splits)

lemma scoreDay_p3_examples:
  "map_sum id (\<lambda>r. map totalPoints (snd r)) (scoreDay_p3 dbTwoLineups3 ''ti2025'' ''20250911'')
     = Inr [19, 0]"
  "scoreDay_p3 dbNoTeams3 ''ti2025'' ''20250911'' = Inl UndefinedValue"
  by code_simp+

lemma dayLeaderboard_sorted: "sortedDesc (dayLeaderboard dayDocs)"
  by (simp add: dayLeaderboard_def sortEntries_sorted)

lemma scoreDay_written:
  "docGet (leaderboardsC (fst (scoreDay db t dk))) (t @ ''_'' @ dk) = Some (snd (scoreDay db t dk))"
  by (simp add: scoreDay_def Let_def docGet_docSet_same)

text \<open>
  Claim C2 says every leaderboard written by \<open>scoreDay\<close> is sorted by descending total.
  The slim-projection variant and the provider-driven one sort before they write, but
  \<open>scoreDay\<close> of \<open>index.ts\<close> writes the entries in the order of the lineup query. With
  manager a on team 20 (total 0) stored before manager b on team 10 (total 11 + 6 + 2 = 19),
  the document written for the day holds the totals 0, 19 in that order.
\<close>

theorem scoreDay_writes_query_order:
  "map totalPoints (snd (scoreDay dbTwoLineups ''ti2025'' ''20250911'')) = [0, 19]
   \<and> docGet (leaderboardsC (fst (scoreDay dbTwoLineups ''ti2025'' ''20250911''))) ''ti2025_20250911''
       = Some (snd (scoreDay dbTwoLineups ''ti2025'' ''20250911''))
   \<and> \<not> sortedDesc (snd (scoreDay dbTwoLineups ''ti2025'' ''20250911''))"
  by code_simp

section \<open>Results on the match cache\<close>

lemma upsert_stores_payload_completeness:
  "upsertMatchDoc utc t raw db = (db', res) \<Longrightarrow>
   u_complete res = looksComplete (raw_players raw) (raw_duration raw)
   \<and> map_option complete (docGet (matchesC db') (jsString (u_match_id res)))
       = Some (looksComplete (raw_players raw) (raw_duration raw))"
  by (auto simp: upsertMatchDoc_def Let_def docGet_docSet_same)

lemma shouldFetch_complete: "complete d \<Longrightarrow> \<not> shouldFetch now (Some d) row"
  by (simp add: shouldFetch_def)

text \<open>
  Claim C3 as stated: once a match is cached with \<open>complete = true\<close>, no later
  \<open>upsertMatchDoc\<close> for its id leaves \<open>complete = false\<close>. It fails: match 7 is cached
  as complete, and an upsert of a payload for match 7 with no player rows and duration 0
  stores \<open>complete = false\<close>.
\<close>

theorem upsert_regresses_complete:
  "map_option complete (docGet (matchesC dbCached) ''7'') = Some True
   \<and> map_option complete
       (docGet (matchesC (fst (upsertMatchDoc utcSep11 ''ti2025'' rawPartial dbCached))) ''7'')
     = Some False"
  by code_simp

lemma docGet_docSet_other: "k \<noteq> k' \<Longrightarrow> docGet (docSet coll k' v) k = docGet coll k"
proof -
  assume ne: "k \<noteq> k'"
  have "map_of (map (\<lambda>(j, w). if j = k' then (j, v) else (j, w)) xs) k = map_of xs k" for xs
    using ne by (induction xs) auto
  with ne show ?thesis
    by (auto simp: docGet_def docSet_def map_add_def split: option.splits)
qed

text \<open>A row whose match id is cached as complete is skipped: no fetch, no upsert.\<close>

lemma pollRow_skips_complete:
  assumes "docGet (matchesC db) (jsString (rowId row)) = Some d" and "complete d"
  shows "pollRow utc fetch now t row (db, cd) = (db, cd)"
  using assms by (simp add: pollRow_def Let_def rowId_def shouldFetch_complete)

text \<open>
  One step of the poller's loop, with a provider whose detail carries the match id that
  was asked for: every record cached as complete is still there, unchanged.
\<close>

lemma pollRow_keeps_complete:
  assumes consistent: "\<And>i det. fetch i = Some det \<Longrightarrow> detailId det = i"
    and cached: "docGet (matchesC db) k = Some d" and compl: "complete d"
  shows "docGet (matchesC (fst (pollRow utc fetch now t row (db, cd)))) k = Some d"
proof -
  define matchId where "matchId = rowId row"
  define snap where "snap = docGet (matchesC db) (jsString matchId)"
  show ?thesis
  proof (cases "matchId = 0 \<or> \<not> shouldFetch now snap row \<or> fetch matchId = None")
    case True
    then have "pollRow utc fetch now t row (db, cd) = (db, cd)"
      by (auto simp: pollRow_def Let_def matchId_def snap_def rowId_def)
    with cached show ?thesis by simp
  next
    case False
    then obtain det where det: "fetch matchId = Some det" and go: "shouldFetch now snap row"
      and nz: "matchId \<noteq> 0"
      by auto
    have other: "k \<noteq> jsString matchId"
    proof
      assume "k = jsString matchId"
      with cached have "snap = Some d" by (simp add: snap_def)
      with compl go show False by (simp add: shouldFetch_def)
    qed
    have id: "detailId det = matchId"
      using det by (rule consistent)
    have "matchesC (fst (upsertMatchDoc utc t det db))
            = docSet (matchesC db) (jsString matchId)
                (the (docGet (matchesC (fst (upsertMatchDoc utc t det db))) (jsString matchId)))"
      using id by (simp add: upsertMatchDoc_def Let_def detailId_def docGet_docSet_same)
    then have keep: "docGet (matchesC (fst (upsertMatchDoc utc t det db))) k = docGet (matchesC db) k"
      using other by (metis docGet_docSet_other)
    have "fst (pollRow utc fetch now t row (db, cd)) = fst (upsertMatchDoc utc t det db)"
      using det go nz
      by (auto simp: pollRow_def Let_def matchId_def [symmetric] rowId_def [symmetric]
          snap_def [symmetric] split: prod.splits)
    with keep cached show ?thesis by simp
  qed
qed

text \<open>
  Without that agreement the step can regress a record: asked for match 8, a provider that
  answers with the partial payload of match 7 makes the poller overwrite the complete
  record of match 7.
\<close>

lemma pollRow_regresses_on_foreign_detail:
  "map_option complete
     (docGet (matchesC (fst (pollRow utcSep11 fetchPartial 1757600000000 ''ti2025'' row8 (dbCached, []))))
        ''7'')
   = Some False"
  by code_simp

text \<open>
  Claim C3 as amended. \<open>upsertMatchDoc\<close> always stores, and returns, the completeness of
  the payload it is given (exactly 10 player rows and a positive duration), whatever was
  cached. In the poller, a row whose match id is cached with \<open>complete = true\<close> is
  skipped, so the loop body neither fetches nor upserts and the cache is unchanged. And
  when the provider's detail carries the match id that was requested, one step of the
  poller's loop leaves every record cached with \<open>complete = true\<close> unchanged.
\<close>

theorem poller_keeps_complete_matches:
  "u_complete (snd (upsertMatchDoc utc t raw db)) = looksComplete (raw_players raw) (raw_duration raw)
   \<and> map_option complete
       (docGet (matchesC (fst (upsertMatchDoc utc t raw db)))
          (jsString (u_match_id (snd (upsertMatchDoc utc t raw db)))))
     = Some (looksComplete (raw_players raw) (raw_duration raw))
   \<and> (docGet (matchesC db) (jsString (rowId row)) = Some d \<and> complete d
        \<longrightarrow> pollRow utc fetch now t row (db, cd) = (db, cd))
   \<and> ((\<forall>i det. fetch i = Some det \<longrightarrow> detailId det = i)
        \<and> docGet (matchesC db) k = Some d \<and> complete d
        \<longrightarrow> docGet (matchesC (fst (pollRow utc fetch now t row (db, cd)))) k = Some d)"
proof -
  obtain db' res where up: "upsertMatchDoc utc t raw db = (db', res)"
    by (cases "upsertMatchDoc utc t raw db")
  from upsert_stores_payload_completeness [OF up] up
  have a: "u_complete (snd (upsertMatchDoc utc t raw db)) = looksComplete (raw_players raw) (raw_duration raw)
     \<and> map_option complete
         (docGet (matchesC (fst (upsertMatchDoc utc t raw db)))
            (jsString (u_match_id (snd (upsertMatchDoc utc t raw db)))))
       = Some (looksComplete (raw_players raw) (raw_duration raw))"
    by simp
  have b: "docGet (matchesC db) (jsString (rowId row)) = Some d \<and> complete d
        \<longrightarrow> pollRow utc fetch now t row (db, cd) = (db, cd)"
    by (auto intro: pollRow_skips_complete)
  have c: "(\<forall>i det. fetch i = Some det \<longrightarrow> detailId det = i)
        \<and> docGet (matchesC db) k = Some d \<and> complete d
        \<longrightarrow> docGet (matchesC (fst (pollRow utc fetch now t row (db, cd)))) k = Some d"
    by (auto intro: pollRow_keeps_complete)
  from a b c show ?thesis
    by blast
qed

text \<open>
  Claim C3 as amended, at a concrete input: match 7 is cached as complete and the provider
  answers each request with a partial payload of the requested match. The list row of
  match 7 is skipped; the list row of match 8 is fetched and stored as incomplete, and the
  record of match 7 stays as it was.
\<close>

theorem poller_keeps_complete_matches_witness:
  "pollRow utcSep11 fetchById 1757600000000 ''ti2025'' row7 (dbCached, []) = (dbCached, [])
   \<and> docGet (matchesC (fst (pollRow utcSep11 fetchById 1757600000000 ''ti2025'' row8 (dbCached, []))))
       ''7'' = Some completeMatch7
   \<and> map_option complete
       (docGet (matchesC (fst (pollRow utcSep11 fetchById 1757600000000 ''ti2025'' row8 (dbCached, []))))
          ''8'') = Some False"
proof -
  have h0: "\<forall>i det. fetchById i = Some det \<longrightarrow> detailId det = i"
    by (auto simp: fetchById_def detailId_def nullishOr_def toInt_def)
  have h1: "docGet (matchesC dbCached) (jsString (rowId row7)) = Some completeMatch7"
    by code_simp
  have h2: "docGet (matchesC dbCached) ''7'' = Some completeMatch7"
    by code_simp
  have h3: "complete completeMatch7"
    by code_simp
  have h4: "map_option complete
       (docGet (matchesC (fst (pollRow utcSep11 fetchById 1757600000000 ''ti2025'' row8 (dbCached, []))))
          ''8'') = Some False"
    by code_simp
  have skip: "pollRow utcSep11 fetchById 1757600000000 ''ti2025'' row7 (dbCached, []) = (dbCached, [])"
    using poller_keeps_complete_matches [of utcSep11 "''ti2025''" rawPartial dbCached row7
        completeMatch7 fetchById 1757600000000 "[]" "''7''"] h1 h3
    by blast
  have keep: "docGet (matchesC (fst (pollRow utcSep11 fetchById 1757600000000 ''ti2025'' row8 (dbCached, []))))
       ''7'' = Some completeMatch7"
    using poller_keeps_complete_matches [of utcSep11 "''ti2025''" rawPartial dbCached row8
        completeMatch7 fetchById 1757600000000 "[]" "''7''"] h0 h2 h3
    by blast
  from skip keep h4 show ?thesis
    by blast
qed

section \<open>Results on the lock gate\<close>

text \<open>The lock instant of 2025-09-11 with lock hour 8 is 2025-09-11T08:00:00Z.\<close>

lemma lockTimestamp_example: "lockTimestamp ''20250911'' 8 = Some lockInstant"
  by code_simp

text \<open>
  \<open>submitLineup\<close> of \<open>index.ts\<close>, for a signed-in caller with a tournament id and an
  8-digit date key: before the lock instant the lineup is written and the call returns;
  from the lock instant on it fails with \<open>failed-precondition\<close>.
\<close>

lemma submitLineup_gate:
  assumes "auth_uid req = Some uid" and "q_tid req \<noteq> []" and "isDateKey (q_dateKey req)"
    and "lockTimestamp (q_dateKey req) (tournamentLockHour ts (q_tid req)) = Some lockAt"
  shows "now < lockAt \<Longrightarrow>
           \<exists>db' docId. submitLineup ts now req db = Inr (db', docId) \<and> docGet (lineupsC db') docId \<noteq> None"
    and "now \<ge> lockAt \<Longrightarrow> submitLineup ts now req db = Inl FailedPrecondition"
  using assms by (auto simp: submitLineup_def isLocked_def Let_def docGet_docSet_same)

text \<open>The stand-alone \<open>submitLineup\<close> never fails with \<open>failed-precondition\<close>.\<close>

lemma submitLineup4_never_blocks: "submitLineup4 ts now req ls \<noteq> Inl FailedPrecondition"
  by (auto simp: submitLineup4_def Let_def split: option.splits)

text \<open>
  Claim C5 says a submission succeeds strictly before the lock instant and fails with
  \<open>failed-precondition\<close> from that instant on. \<open>submitLineup\<close> of \<open>index.ts\<close> does so:
  for date key 20250911 and lock hour 8 it accepts at 07:59:59Z and rejects at 08:00:00Z.
  The stand-alone \<open>submitLineup\<close>, whose comment says ``block'', only computes a
  \<open>locked\<close> flag from the hour of the day: at 08:00:00Z it writes the lineup and returns
  \<open>ok\<close> with \<open>locked = true\<close>.
\<close>

theorem standalone_submit_accepts_after_lock:
  "(case submitLineup4 tournamentsEx lockInstant request4Ex [] of
      Inl e \<Rightarrow> False
    | Inr (ls, lk) \<Rightarrow> lk \<and> map_option d4_captain (docGet ls ''ti2025_u1_20250911'') = Some 111)
   \<and> submitLineup tournamentsEx lockInstant requestEx emptyDb = Inl FailedPrecondition
   \<and> (case submitLineup tournamentsEx beforeLock requestEx emptyDb of
        Inl e \<Rightarrow> False
      | Inr (db', docId) \<Rightarrow>
          docId = ''ti2025_20250911_u1'' \<and> map_option captain (docGet (lineupsC db') docId) = Some ''111'')"
  by code_simp

end
